theory Spec2Isabelle
  imports Main
begin

section \<open>Data model of project.go\<close>

text \<open>
  Go's \<open>int\<close> fields are modelled as \<open>int\<close>: the program performs no arithmetic on
  them (they are decoded, compared with nothing, and printed with \<open>%d\<close>), so wrap-around
  never comes into play. A \<open>time.Time\<close> is used only through \<open>Unix()\<close>, so it is
  modelled by its number of seconds since the epoch. Go strings are byte sequences, as
  \<open>string\<close> is here.
\<close>

datatype Time = Time (Unix: int)

record ProjectStats =
  CommitCount :: int
  StorageSize :: int
  RepositorySize :: int
  LfsObjectSize :: int
  JobArtifactsSize :: int

record MergeRequest =
  Title :: string
  State :: string
  MergeStatus :: string
  TargetBranch :: string
  CreatedAt :: Time
  UpdatedAt :: Time

text \<open>The field \<open>Id\<close> of the source is \<open>Id'\<close> here (HOL has a constant \<open>Id\<close>).\<close>

record Project =
  Id' :: int
  PathWithNamespace :: string
  StarCount :: int
  ForkCount :: int
  OpenIssueCount :: int
  LastActivityAt :: Time
  Statistics :: ProjectStats
  MergeRequests :: "MergeRequest list"

text \<open>
  \<open>SetMergeRequests\<close> has a pointer receiver: it overwrites the field of the project it
  is called on. The model returns the updated project; the caller stores it back.
\<close>

definition SetMergeRequests :: "Project \<Rightarrow> MergeRequest list \<Rightarrow> Project" where
  "SetMergeRequests project mergeRequests = project\<lparr>MergeRequests := mergeRequests\<rparr>"

section \<open>Formatting and parsing of integers\<close>

text \<open>The verb \<open>%d\<close> of \<open>fmt.Sprintf\<close>: signed decimal, no padding.\<close>

definition digit_char :: "nat \<Rightarrow> char" where
  "digit_char d = ''0123456789'' ! d"

fun fmt_nat :: "nat \<Rightarrow> string" where
  "fmt_nat n = (if n < 10 then [digit_char n] else fmt_nat (n div 10) @ [digit_char (n mod 10)])"

declare fmt_nat.simps [simp del]

definition fmt_d :: "int \<Rightarrow> string" where
  "fmt_d i = (if i < 0 then CHR ''-'' # fmt_nat (nat (- i)) else fmt_nat (nat i))"

text \<open>
  \<open>strconv.Atoi\<close> of the Go standard library, for a 64-bit \<open>int\<close>: an optional sign, then
  one or more decimal digits and nothing else; \<open>ErrSyntax\<close> for anything else, \<open>ErrRange\<close>
  when the value does not fit. The digit loop is that of \<open>ParseUint\<close> in base 10: it
  stops at the first character that is not a digit, or at the first digit that takes the
  value past \<open>2^64 - 1\<close>, whichever comes first.
\<close>

datatype NumError = ErrSyntax | ErrRange

definition digit_val :: "char \<Rightarrow> nat option" where
  "digit_val c = (let v = (of_char c :: nat) in if 48 \<le> v \<and> v \<le> 57 then Some (v - 48) else None)"

fun ParseUint_loop :: "string \<Rightarrow> nat \<Rightarrow> NumError + nat" where
  "ParseUint_loop [] n = Inr n"
| "ParseUint_loop (c # cs) n =
     (case digit_val c of
        None \<Rightarrow> Inl ErrSyntax
      | Some d \<Rightarrow>
          if n * 10 + d > 18446744073709551615 then Inl ErrRange
          else ParseUint_loop cs (n * 10 + d))"

definition ParseUint :: "string \<Rightarrow> NumError + nat" where
  "ParseUint s = (if s = [] then Inl ErrSyntax else ParseUint_loop s 0)"

definition Atoi :: "string \<Rightarrow> NumError + int" where
  "Atoi s =
     (case s of
        [] \<Rightarrow> Inl ErrSyntax
      | c # cs \<Rightarrow>
          (let neg = (c = CHR ''-'');
               s1 = (if c = CHR ''+'' \<or> c = CHR ''-'' then cs else s)
           in case ParseUint s1 of
                Inl e \<Rightarrow> Inl e
              | Inr un \<Rightarrow>
                  if \<not> neg \<and> un \<ge> 9223372036854775808 then Inl ErrRange
                  else if neg \<and> un > 9223372036854775808 then Inl ErrRange
                  else Inr (if neg then - int un else int un)))"

section \<open>The upstream API and the ways a fetch can fail\<close>

text \<open>
  An HTTP response as the program reads it: the header map (\<open>map[string][]string\<close>; a
  key that is missing yields the nil slice) and the body. \<open>http.Get\<close> and the JSON
  decoder are outside the repository; they are parameters of the model. The upstream is
  a function from the requested URL to the outcome of the request, fixed for the
  duration of one poll.
\<close>

record Response =
  Header :: "string \<rightharpoonup> string list"
  Body :: string

record Env =
  http_Get :: "string \<Rightarrow> string + Response"
  decode_Projects :: "string \<Rightarrow> string + Project list"
  decode_MergeRequests :: "string \<Rightarrow> string + MergeRequest list"

text \<open>
  \<open>log.Fatalf\<close> ends the process: nothing is returned to the caller. The three call
  sites are kept apart, each with the error it reports. Indexing the values of a header
  that is missing is a run-time panic (index out of range).
\<close>

datatype failure =
  Fatal_Get string
| Fatal_Decode string
| Fatal_Atoi NumError
| Panic_index_out_of_range

text \<open>
  The state threaded through the fetchers is the sequence of URLs requested so far, in
  order (each one is also what \<open>log.Printf\<close> writes).
\<close>

type_synonym requests = "string list"

section \<open>Rendering\<close>

text \<open>
  \<open>regexp.MustCompile(`\/`).ReplaceAllString(s, repl)\<close>: the pattern matches the single
  character \<open>/\<close>, and the replacement used has no \<open>$\<close>, so it is inserted literally.
\<close>

fun ReplaceAllString :: "string \<Rightarrow> string \<Rightarrow> string" where
  "ReplaceAllString [] repl = []"
| "ReplaceAllString (c # cs) repl =
     (if c = CHR ''/'' then repl else [c]) @ ReplaceAllString cs repl"

definition merge_request_stats :: "string \<Rightarrow> string \<Rightarrow> MergeRequest \<Rightarrow> string" where
  "merge_request_stats path stats mergeRequest =
     stats @ ''\<newline>gitlab_project_merge_request{repo=\"'' @ path @ ''\", state=\"'' @ State mergeRequest
       @ ''\", merge_status=\"'' @ MergeStatus mergeRequest
       @ ''\", target_branch=\"'' @ TargetBranch mergeRequest @ ''\"} 1''"

definition PrometheusStats :: "Project \<Rightarrow> string" where
  "PrometheusStats project =
     (let path = ReplaceAllString (PathWithNamespace project) ''___'';
          stats = '''';
          stats = stats @ ''\<newline>gitlab_project_stars{repo=\"'' @ path @ ''\"} '' @ fmt_d (StarCount project);
          stats = stats @ ''\<newline>gitlab_project_forks{repo=\"'' @ path @ ''\"} '' @ fmt_d (ForkCount project);
          stats = stats @ ''\<newline>gitlab_project_commit_count{repo=\"'' @ path @ ''\"} ''
                    @ fmt_d (CommitCount (Statistics project));
          stats = stats @ ''\<newline>gitlab_project_storage_size{repo=\"'' @ path @ ''\"} ''
                    @ fmt_d (StorageSize (Statistics project));
          stats = stats @ ''\<newline>gitlab_project_repository_size{repo=\"'' @ path @ ''\"} ''
                    @ fmt_d (RepositorySize (Statistics project));
          stats = stats @ ''\<newline>gitlab_project_lfs_object_size{repo=\"'' @ path @ ''\"} ''
                    @ fmt_d (LfsObjectSize (Statistics project));
          stats = stats @ ''\<newline>gitlab_project_job_artifacts_size{repo=\"'' @ path @ ''\"} ''
                    @ fmt_d (JobArtifactsSize (Statistics project));
          stats = foldl (merge_request_stats path) stats (MergeRequests project);
          stats = stats @ ''\<newline>gitlab_project_last_activity{repo=\"'' @ path @ ''\"} ''
                    @ fmt_d (Unix (LastActivityAt project))
      in stats)"

section \<open>The merge-request fetcher\<close>

definition mergesUrl :: "string \<Rightarrow> int \<Rightarrow> string \<Rightarrow> int \<Rightarrow> string" where
  "mergesUrl gitlabUrl pid token page =
     gitlabUrl @ ''/api/v4/projects/'' @ fmt_d pid @ ''/merge_requests?private_token='' @ token
       @ ''&per_page=100&statistics=1&page='' @ fmt_d page"

text \<open>
  The body of \<open>for true { ... }\<close> in \<open>GetMergeRequests\<close>. The loop has no bound, so it
  is a partial function: \<open>None\<close> is a run that never returns.
\<close>

partial_function (option) GetMergeRequests_loop ::
  "Env \<Rightarrow> string \<Rightarrow> string \<Rightarrow> Project \<Rightarrow> int \<Rightarrow> MergeRequest list \<Rightarrow> requests
     \<Rightarrow> ((failure + MergeRequest list) \<times> requests) option" where
  "GetMergeRequests_loop env gitlabUrl token project page merge_requests reqs =
     (let url = mergesUrl gitlabUrl (Id' project) token page;
          reqs = reqs @ [url]
      in case http_Get env url of
           Inl e \<Rightarrow> Some (Inl (Fatal_Get e), reqs)
         | Inr response \<Rightarrow>
             (case decode_MergeRequests env (Body response) of
                Inl e \<Rightarrow> Some (Inl (Fatal_Decode e), reqs)
              | Inr mergesInPage \<Rightarrow>
                  (let merge_requests = merge_requests @ mergesInPage
                   in case Header response ''X-Next-Page'' of
                        None \<Rightarrow> Some (Inl Panic_index_out_of_range, reqs)
                      | Some [] \<Rightarrow> Some (Inl Panic_index_out_of_range, reqs)
                      | Some (pageHeader # _) \<Rightarrow>
                          if pageHeader = '''' then Some (Inr merge_requests, reqs)
                          else (case Atoi pageHeader of
                                  Inl e \<Rightarrow> Some (Inl (Fatal_Atoi e), reqs)
                                | Inr page \<Rightarrow>
                                    GetMergeRequests_loop env gitlabUrl token project page
                                      merge_requests reqs))))"

definition GetMergeRequests ::
  "Env \<Rightarrow> Project \<Rightarrow> string \<Rightarrow> string \<Rightarrow> requests
     \<Rightarrow> ((failure + MergeRequest list) \<times> requests) option" where
  "GetMergeRequests env project gitlabUrl token reqs =
     GetMergeRequests_loop env gitlabUrl token project 1 [] reqs"

section \<open>The project fetcher\<close>

definition projectsUrl :: "string \<Rightarrow> string \<Rightarrow> int \<Rightarrow> string" where
  "projectsUrl gitlabUrl token page =
     gitlabUrl @ ''/api/v4/projects?private_token='' @ token
       @ ''&per_page=100&statistics=1&page='' @ fmt_d page"

text \<open>
  \<open>for i := range projectsInPage\<close>: the merge requests of element \<open>i\<close> are fetched and
  stored into element \<open>i\<close>, for \<open>i\<close> from the given index up to the end of the page.
\<close>

function attach_loop ::
  "Env \<Rightarrow> string \<Rightarrow> string \<Rightarrow> nat \<Rightarrow> Project list \<Rightarrow> requests
     \<Rightarrow> ((failure + Project list) \<times> requests) option" where
  "attach_loop env gitlabUrl token i projectsInPage reqs =
     (if i < length projectsInPage then
        (case GetMergeRequests env (projectsInPage ! i) gitlabUrl token reqs of
           None \<Rightarrow> None
         | Some (Inl e, reqs) \<Rightarrow> Some (Inl e, reqs)
         | Some (Inr merge_requests, reqs) \<Rightarrow>
             attach_loop env gitlabUrl token (Suc i)
               (projectsInPage[i := SetMergeRequests (projectsInPage ! i) merge_requests]) reqs)
      else Some (Inr projectsInPage, reqs))"
  by pat_completeness auto
termination
  by (relation "measure (\<lambda>(env, gitlabUrl, token, i, projectsInPage, reqs). length projectsInPage - i)")
     auto

declare attach_loop.simps [simp del]

partial_function (option) GetRepositories_loop ::
  "Env \<Rightarrow> string \<Rightarrow> string \<Rightarrow> int \<Rightarrow> Project list \<Rightarrow> requests
     \<Rightarrow> ((failure + Project list) \<times> requests) option" where
  "GetRepositories_loop env gitlabUrl token page projects reqs =
     (let url = projectsUrl gitlabUrl token page;
          reqs = reqs @ [url]
      in case http_Get env url of
           Inl e \<Rightarrow> Some (Inl (Fatal_Get e), reqs)
         | Inr response \<Rightarrow>
             (case decode_Projects env (Body response) of
                Inl e \<Rightarrow> Some (Inl (Fatal_Decode e), reqs)
              | Inr projectsInPage \<Rightarrow>
                  (case attach_loop env gitlabUrl token 0 projectsInPage reqs of
                     None \<Rightarrow> None
                   | Some (Inl e, reqs) \<Rightarrow> Some (Inl e, reqs)
                   | Some (Inr projectsInPage, reqs) \<Rightarrow>
                       (let projects = projects @ projectsInPage
                        in case Header response ''X-Next-Page'' of
                             None \<Rightarrow> Some (Inl Panic_index_out_of_range, reqs)
                           | Some [] \<Rightarrow> Some (Inl Panic_index_out_of_range, reqs)
                           | Some (pageHeader # _) \<Rightarrow>
                               if pageHeader = '''' then Some (Inr projects, reqs)
                               else (case Atoi pageHeader of
                                       Inl e \<Rightarrow> Some (Inl (Fatal_Atoi e), reqs)
                                     | Inr page \<Rightarrow>
                                         GetRepositories_loop env gitlabUrl token page
                                           projects reqs)))))"

definition GetRepositories ::
  "Env \<Rightarrow> string \<Rightarrow> string \<Rightarrow> requests \<Rightarrow> ((failure + Project list) \<times> requests) option" where
  "GetRepositories env gitlabUrl token reqs = GetRepositories_loop env gitlabUrl token 1 [] reqs"

section \<open>Predicates used to state the properties\<close>

text \<open>
  A request was answered when it met none of the three failures of the fetch loops: the
  transport gave a response, its body decodes, and its continuation signal is present
  and either empty or an integer for \<open>strconv.Atoi\<close>.
\<close>

definition answered :: "(string \<Rightarrow> string + 'a list) \<Rightarrow> string + Response \<Rightarrow> bool" where
  "answered decode r =
     (case r of
        Inl _ \<Rightarrow> False
      | Inr response \<Rightarrow>
          (case decode (Body response) of
             Inl _ \<Rightarrow> False
           | Inr _ \<Rightarrow>
               (case Header response ''X-Next-Page'' of
                  None \<Rightarrow> False
                | Some [] \<Rightarrow> False
                | Some (pageHeader # _) \<Rightarrow>
                    pageHeader = '''' \<or> (case Atoi pageHeader of Inl _ \<Rightarrow> False | Inr _ \<Rightarrow> True))))"

text \<open>
  Postconditions of the loops, used in the proofs by fixpoint induction. A run that
  starts with the accumulator \<open>acc\<close> and the requests \<open>reqs\<close> ends with the result
  \<open>extend acc res\<close> and the requests \<open>reqs @ new\<close>, where \<open>res\<close> and \<open>new\<close> depend on
  neither.
\<close>

definition extend :: "'a list \<Rightarrow> failure + 'a list \<Rightarrow> failure + 'a list" where
  "extend acc r = (case r of Inl e \<Rightarrow> Inl e | Inr xs \<Rightarrow> Inr (acc @ xs))"

definition MR_run ::
  "Env \<Rightarrow> string \<Rightarrow> string \<Rightarrow> int \<Rightarrow> int \<Rightarrow> failure + MergeRequest list \<Rightarrow> requests \<Rightarrow> bool" where
  "MR_run env gitlabUrl token pid page res new \<longleftrightarrow>
     (\<forall>project merge_requests reqs. Id' project = pid \<longrightarrow>
        GetMergeRequests_loop env gitlabUrl token project page merge_requests reqs =
          Some (extend merge_requests res, reqs @ new))"

definition MR_post ::
  "Env \<Rightarrow> string \<Rightarrow> string \<Rightarrow> int \<Rightarrow> int \<Rightarrow> failure + MergeRequest list \<Rightarrow> requests \<Rightarrow> bool" where
  "MR_post env gitlabUrl token pid page res new \<longleftrightarrow>
     MR_run env gitlabUrl token pid page res new
     \<and> (\<exists>more. new = mergesUrl gitlabUrl pid token page # more)
     \<and> set new \<subseteq> range (mergesUrl gitlabUrl pid token)
     \<and> (\<forall>xs. res = Inr xs \<longrightarrow>
          (\<forall>u \<in> set new. answered (decode_MergeRequests env) (http_Get env u)))"

text \<open>
  A project is complete when the merge requests it carries are those the merge-request
  fetcher returns for it.
\<close>

definition complete :: "Env \<Rightarrow> string \<Rightarrow> string \<Rightarrow> Project \<Rightarrow> bool" where
  "complete env gitlabUrl token project \<longleftrightarrow>
     (\<exists>new. \<forall>reqs. GetMergeRequests env project gitlabUrl token reqs =
        Some (Inr (MergeRequests project), reqs @ new))"

definition attach_post ::
  "Env \<Rightarrow> string \<Rightarrow> string \<Rightarrow> nat \<Rightarrow> Project list \<Rightarrow> failure + Project list \<Rightarrow> requests \<Rightarrow> bool" where
  "attach_post env gitlabUrl token i ps r new \<longleftrightarrow>
     set new \<subseteq> (\<Union>pid. range (mergesUrl gitlabUrl pid token))
     \<and> (\<forall>ps'. r = Inr ps' \<longrightarrow>
          length ps' = length ps
          \<and> (\<forall>j < length ps. ps' ! j = (if j < i then ps ! j else SetMergeRequests (ps ! j) (MergeRequests (ps' ! j))))
          \<and> (\<forall>j < length ps. i \<le> j \<longrightarrow> complete env gitlabUrl token (ps' ! j))
          \<and> (\<forall>u \<in> set new. answered (decode_MergeRequests env) (http_Get env u)))"

definition request_answered :: "Env \<Rightarrow> string \<Rightarrow> string \<Rightarrow> string \<Rightarrow> bool" where
  "request_answered env gitlabUrl token u \<longleftrightarrow>
     (u \<in> range (projectsUrl gitlabUrl token) \<and> answered (decode_Projects env) (http_Get env u))
     \<or> (u \<in> (\<Union>pid. range (mergesUrl gitlabUrl pid token))
          \<and> answered (decode_MergeRequests env) (http_Get env u))"

definition repo_post ::
  "Env \<Rightarrow> string \<Rightarrow> string \<Rightarrow> int \<Rightarrow> failure + Project list \<Rightarrow> requests \<Rightarrow> bool" where
  "repo_post env gitlabUrl token page res new \<longleftrightarrow>
     (\<exists>more. new = projectsUrl gitlabUrl token page # more)
     \<and> (\<forall>ps. res = Inr ps \<longrightarrow>
          (\<forall>p \<in> set ps. complete env gitlabUrl token p)
          \<and> (\<forall>u \<in> set new. request_answered env gitlabUrl token u))"

text \<open>
  A mocked page: the request for \<open>url\<close> succeeds, its body decodes to \<open>items\<close> and its
  continuation signal (the first value of \<open>X-Next-Page\<close>) is \<open>signal\<close>. Pages 1 to
  \<open>N - 1\<close> are chained when page \<open>k\<close> is mocked with a signal that reads \<open>k + 1\<close>; the
  last page, \<open>N\<close>, is described where it is used.
\<close>

definition mocked_page ::
  "(string \<Rightarrow> string + Response) \<Rightarrow> (string \<Rightarrow> string + 'a list) \<Rightarrow> string \<Rightarrow> 'a list \<Rightarrow> string \<Rightarrow> bool" where
  "mocked_page get decode url items signal =
     (case get url of
        Inl _ \<Rightarrow> False
      | Inr response \<Rightarrow>
          decode (Body response) = Inr items
          \<and> (case Header response ''X-Next-Page'' of
                None \<Rightarrow> False
              | Some [] \<Rightarrow> False
              | Some (pageHeader # _) \<Rightarrow> pageHeader = signal))"

definition chained_pages ::
  "(string \<Rightarrow> string + Response) \<Rightarrow> (string \<Rightarrow> string + 'a list) \<Rightarrow> (int \<Rightarrow> string)
     \<Rightarrow> (nat \<Rightarrow> 'a list) \<Rightarrow> (nat \<Rightarrow> string) \<Rightarrow> nat \<Rightarrow> bool" where
  "chained_pages get decode url items signal N =
     (\<forall>k \<in> {1..<N}. mocked_page get decode (url (int k)) (items k) (signal k)
        \<and> Atoi (signal k) = Inr (int k + 1))"

text \<open>
  The merge-request fetcher, called for \<open>project\<close>, returns \<open>mrs\<close> after the requests
  \<open>new\<close>.
\<close>

definition fetches ::
  "Env \<Rightarrow> string \<Rightarrow> string \<Rightarrow> Project \<Rightarrow> MergeRequest list \<Rightarrow> requests \<Rightarrow> bool" where
  "fetches env gitlabUrl token project mrs new \<longleftrightarrow>
     (\<forall>reqs. GetMergeRequests env project gitlabUrl token reqs = Some (Inr mrs, reqs @ new))"

text \<open>
  The rendered text as the specification describes it: a list of metric lines, each
  keyed by the label of the project (its path with every \<open>/\<close> replaced by \<open>___\<close>).
  \<open>split_lines\<close> cuts a text at its newlines.
\<close>

definition label :: "Project \<Rightarrow> string" where
  "label project = concat (map (\<lambda>c. if c = CHR ''/'' then ''___'' else [c]) (PathWithNamespace project))"

definition counter_line :: "string \<Rightarrow> Project \<Rightarrow> int \<Rightarrow> string" where
  "counter_line name project v = name @ ''{repo=\"'' @ label project @ ''\"} '' @ fmt_d v"

definition merge_request_line :: "Project \<Rightarrow> MergeRequest \<Rightarrow> string" where
  "merge_request_line project mr =
     ''gitlab_project_merge_request{repo=\"'' @ label project @ ''\", state=\"'' @ State mr
       @ ''\", merge_status=\"'' @ MergeStatus mr @ ''\", target_branch=\"'' @ TargetBranch mr
       @ ''\"} 1''"

definition counter_lines :: "Project \<Rightarrow> string list" where
  "counter_lines project =
     [counter_line ''gitlab_project_stars'' project (StarCount project),
      counter_line ''gitlab_project_forks'' project (ForkCount project),
      counter_line ''gitlab_project_commit_count'' project (CommitCount (Statistics project)),
      counter_line ''gitlab_project_storage_size'' project (StorageSize (Statistics project)),
      counter_line ''gitlab_project_repository_size'' project (RepositorySize (Statistics project)),
      counter_line ''gitlab_project_lfs_object_size'' project (LfsObjectSize (Statistics project)),
      counter_line ''gitlab_project_job_artifacts_size'' project (JobArtifactsSize (Statistics project))]"

definition last_activity_line :: "Project \<Rightarrow> string" where
  "last_activity_line project =
     counter_line ''gitlab_project_last_activity'' project (Unix (LastActivityAt project))"

definition metric_lines :: "Project \<Rightarrow> string list" where
  "metric_lines project =
     counter_lines project @ map (merge_request_line project) (MergeRequests project)
       @ [last_activity_line project]"

definition render_lines :: "string list \<Rightarrow> string" where
  "render_lines ls = concat (map (\<lambda>l. CHR 0x0A # l) ls)"

fun split_lines :: "string \<Rightarrow> string list" where
  "split_lines [] = [[]]"
| "split_lines (c # cs) =
     (if c = CHR 0x0A then [] # split_lines cs
      else (case split_lines cs of [] \<Rightarrow> [[c]] | l # ls \<Rightarrow> (c # l) # ls))"


text \<open>Concrete values for the witnesses.\<close>

definition example_merge_request :: MergeRequest where
  "example_merge_request =
     \<lparr>Title = ''Add feature'', State = ''opened'', MergeStatus = ''can_be_merged'',
      TargetBranch = ''main'', CreatedAt = Time 1700000000, UpdatedAt = Time 1700000100\<rparr>"

definition example_project :: Project where
  "example_project =
     \<lparr>Id' = 42, PathWithNamespace = ''group/sub/repo'', StarCount = 5, ForkCount = 1,
      OpenIssueCount = 0, LastActivityAt = Time 1700000200,
      Statistics = \<lparr>CommitCount = 0, StorageSize = 0, RepositorySize = 0, LfsObjectSize = 0,
                     JobArtifactsSize = 0\<rparr>,
      MergeRequests = [example_merge_request]\<rparr>"

text \<open>
  What a run over pages is expected to produce: the projects of a page with their merge
  requests attached, and the requests made for a page (the page itself, then the merge
  requests of each of its projects in order).
\<close>

definition enriched :: "(Project \<Rightarrow> MergeRequest list) \<Rightarrow> Project list \<Rightarrow> Project list" where
  "enriched mrs ps = map (\<lambda>p. SetMergeRequests p (mrs p)) ps"

definition page_requests :: "string \<Rightarrow> string \<Rightarrow> (Project \<Rightarrow> requests) \<Rightarrow> nat \<Rightarrow> Project list \<Rightarrow> requests" where
  "page_requests gitlabUrl token mreqs k ps =
     projectsUrl gitlabUrl token (int k) # concat (map mreqs ps)"

text \<open>
  Mock upstreams: a table from URLs to responses (any other URL is refused), and
  decoders that know a few bodies.
\<close>

definition mock_merge_request :: "string \<Rightarrow> MergeRequest" where
  "mock_merge_request title =
     \<lparr>Title = title, State = ''opened'', MergeStatus = ''can_be_merged'', TargetBranch = ''main'',
      CreatedAt = Time 1700000000, UpdatedAt = Time 1700000100\<rparr>"

definition mock_project :: "int \<Rightarrow> string \<Rightarrow> Project" where
  "mock_project pid path =
     \<lparr>Id' = pid, PathWithNamespace = path, StarCount = 5, ForkCount = 1, OpenIssueCount = 0,
      LastActivityAt = Time 1700000200,
      Statistics = \<lparr>CommitCount = 0, StorageSize = 0, RepositorySize = 0, LfsObjectSize = 0,
                     JobArtifactsSize = 0\<rparr>,
      MergeRequests = []\<rparr>"

definition mock_decode_Projects :: "string \<Rightarrow> string + Project list" where
  "mock_decode_Projects body =
     (if body = ''[]'' then Inr []
      else if body = ''[p1,p2]'' then Inr [mock_project 1 ''group/one'', mock_project 2 ''group/two'']
      else if body = ''[p3]'' then Inr [mock_project 3 ''group/sub/three'']
      else Inl ''json: cannot unmarshal'')"

definition mock_decode_MergeRequests :: "string \<Rightarrow> string + MergeRequest list" where
  "mock_decode_MergeRequests body =
     (if body = ''[]'' then Inr []
      else if body = ''[a,b,c]'' then
        Inr [mock_merge_request ''a'', mock_merge_request ''b'', mock_merge_request ''c'']
      else if body = ''[d]'' then Inr [mock_merge_request ''d'']
      else if body = ''[e]'' then Inr [mock_merge_request ''e'']
      else Inl ''json: cannot unmarshal'')"

definition mock_response :: "string \<Rightarrow> string \<Rightarrow> Response" where
  "mock_response signal body = \<lparr>Header = [''X-Next-Page'' \<mapsto> [signal]], Body = body\<rparr>"

definition mock_env :: "(string \<times> Response) list \<Rightarrow> Env" where
  "mock_env table =
     \<lparr>http_Get = (\<lambda>url. case map_of table url of
                           None \<Rightarrow> Inl ''connection refused''
                         | Some response \<Rightarrow> Inr response),
      decode_Projects = mock_decode_Projects,
      decode_MergeRequests = mock_decode_MergeRequests\<rparr>"

definition one_page :: "(string \<times> Response) list" where
  "one_page =
     [(''https://git.example.com/api/v4/projects?private_token=tok123&per_page=100&statistics=1&page=1'',
       mock_response '''' ''[p1,p2]''),
      (''https://git.example.com/api/v4/projects/1/merge_requests?private_token=tok123&per_page=100&statistics=1&page=1'',
       mock_response '''' ''[a,b,c]''),
      (''https://git.example.com/api/v4/projects/2/merge_requests?private_token=tok123&per_page=100&statistics=1&page=1'',
       mock_response '''' ''[]'')]"

definition two_pages :: "(string \<times> Response) list" where
  "two_pages =
     [(''https://git.example.com/api/v4/projects?private_token=tok123&per_page=100&statistics=1&page=1'',
       mock_response ''2'' ''[p1,p2]''),
      (''https://git.example.com/api/v4/projects?private_token=tok123&per_page=100&statistics=1&page=2'',
       mock_response '''' ''[p3]''),
      (''https://git.example.com/api/v4/projects/1/merge_requests?private_token=tok123&per_page=100&statistics=1&page=1'',
       mock_response '''' ''[a,b,c]''),
      (''https://git.example.com/api/v4/projects/2/merge_requests?private_token=tok123&per_page=100&statistics=1&page=1'',
       mock_response '''' ''[]''),
      (''https://git.example.com/api/v4/projects/3/merge_requests?private_token=tok123&per_page=100&statistics=1&page=1'',
       mock_response ''2'' ''[d]''),
      (''https://git.example.com/api/v4/projects/3/merge_requests?private_token=tok123&per_page=100&statistics=1&page=2'',
       mock_response '''' ''[e]'')]"

definition two_pages_items :: "nat \<Rightarrow> Project list" where
  "two_pages_items k =
     (if k = 1 then [mock_project 1 ''group/one'', mock_project 2 ''group/two'']
      else [mock_project 3 ''group/sub/three''])"

definition two_pages_mrs :: "Project \<Rightarrow> MergeRequest list" where
  "two_pages_mrs p =
     (if Id' p = 1 then [mock_merge_request ''a'', mock_merge_request ''b'', mock_merge_request ''c'']
      else if Id' p = 2 then []
      else [mock_merge_request ''d'', mock_merge_request ''e''])"

definition two_pages_mreqs :: "Project \<Rightarrow> requests" where
  "two_pages_mreqs p =
     (if Id' p = 3 then
        [mergesUrl ''https://git.example.com'' 3 ''tok123'' 1,
         mergesUrl ''https://git.example.com'' 3 ''tok123'' 2]
      else [mergesUrl ''https://git.example.com'' (Id' p) ''tok123'' 1])"

definition malformed :: "(string \<times> Response) list" where
  "malformed =
     [(''https://git.example.com/api/v4/projects?private_token=tok123&per_page=100&statistics=1&page=1'',
       mock_response ''abc'' ''[p1,p2]''),
      (''https://git.example.com/api/v4/projects/1/merge_requests?private_token=tok123&per_page=100&statistics=1&page=1'',
       mock_response '''' ''[a,b,c]''),
      (''https://git.example.com/api/v4/projects/2/merge_requests?private_token=tok123&per_page=100&statistics=1&page=1'',
       mock_response '''' ''[]''),
      (''https://git.example.com/api/v4/projects/3/merge_requests?private_token=tok123&per_page=100&statistics=1&page=1'',
       mock_response ''abc'' ''[d]'')]"

definition zero_signal :: "(string \<times> Response) list" where
  "zero_signal =
     [(''https://git.example.com/api/v4/projects?private_token=tok123&per_page=100&statistics=1&page=1'',
       mock_response ''0'' ''[]''),
      (''https://git.example.com/api/v4/projects?private_token=tok123&per_page=100&statistics=1&page=0'',
       mock_response ''-1'' ''[]''),
      (''https://git.example.com/api/v4/projects?private_token=tok123&per_page=100&statistics=1&page=-1'',
       mock_response '''' ''[]''),
      (''https://git.example.com/api/v4/projects/3/merge_requests?private_token=tok123&per_page=100&statistics=1&page=1'',
       mock_response ''0'' ''[d]''),
      (''https://git.example.com/api/v4/projects/3/merge_requests?private_token=tok123&per_page=100&statistics=1&page=0'',
       mock_response '''' ''[e]'')]"

definition absent_header :: "(string \<times> Response) list" where
  "absent_header =
     [(''https://git.example.com/api/v4/projects?private_token=tok123&per_page=100&statistics=1&page=1'',
       \<lparr>Header = Map.empty, Body = ''[]''\<rparr>),
      (''https://git.example.com/api/v4/projects/3/merge_requests?private_token=tok123&per_page=100&statistics=1&page=1'',
       \<lparr>Header = Map.empty, Body = ''[d]''\<rparr>)]"

section \<open>The merge-request loop\<close>

lemma extend_simps [simp]:
  "extend acc (Inl e) = Inl e" "extend acc (Inr xs) = Inr (acc @ xs)"
  by (simp_all add: extend_def)

lemma extend_extend [simp]: "extend acc (extend xs r) = extend (acc @ xs) r"
  by (cases r) simp_all

lemma MR_run_stop:
  assumes "\<And>project merge_requests reqs. Id' project = pid \<Longrightarrow>
     GetMergeRequests_loop env gitlabUrl token project page merge_requests reqs =
       Some (extend merge_requests res, reqs @ [mergesUrl gitlabUrl pid token page])"
  shows "MR_run env gitlabUrl token pid page res [mergesUrl gitlabUrl pid token page]"
  using assms by (simp add: MR_run_def)

lemma MR_run_continue:
  assumes "http_Get env (mergesUrl gitlabUrl pid token page) = Inr response"
    and "decode_MergeRequests env (Body response) = Inr mergesInPage"
    and "Header response ''X-Next-Page'' = Some (pageHeader # rest)"
    and "pageHeader \<noteq> ''''"
    and "Atoi pageHeader = Inr n"
    and "MR_run env gitlabUrl token pid n res new"
  shows "MR_run env gitlabUrl token pid page (extend mergesInPage res)
           (mergesUrl gitlabUrl pid token page # new)"
  unfolding MR_run_def
proof (intro allI impI)
  fix project :: Project and merge_requests reqs
  assume pid: "Id' project = pid"
  have "GetMergeRequests_loop env gitlabUrl token project page merge_requests reqs =
        GetMergeRequests_loop env gitlabUrl token project n (merge_requests @ mergesInPage)
          (reqs @ [mergesUrl gitlabUrl pid token page])"
    by (subst GetMergeRequests_loop.simps) (simp add: assms(1-5) pid)
  also have "\<dots> = Some (extend (merge_requests @ mergesInPage) res,
                       (reqs @ [mergesUrl gitlabUrl pid token page]) @ new)"
    using assms(6) pid by (simp add: MR_run_def)
  finally show "GetMergeRequests_loop env gitlabUrl token project page merge_requests reqs =
         Some (extend merge_requests (extend mergesInPage res),
               reqs @ mergesUrl gitlabUrl pid token page # new)"
    by simp
qed

lemma MR_loop_Some:
  assumes "GetMergeRequests_loop env gitlabUrl token project page merge_requests reqs = Some y"
  shows "\<exists>res new. y = (extend merge_requests res, reqs @ new)
           \<and> MR_post env gitlabUrl token (Id' project) page res new"
  using assms
proof (induction env gitlabUrl token project page merge_requests reqs y
         rule: GetMergeRequests_loop.raw_induct[rotated 1, consumes 1])
  case (1 f env gitlabUrl token project page merge_requests reqs y)
  let ?url = "mergesUrl gitlabUrl (Id' project) token page"
  have stop: "\<exists>res new. y = (extend merge_requests res, reqs @ new)
           \<and> MR_post env gitlabUrl token (Id' project) page res new"
    if y: "y = (extend merge_requests res, reqs @ [?url])"
      and run: "\<And>p acc rs. Id' p = Id' project \<Longrightarrow>
         GetMergeRequests_loop env gitlabUrl token p page acc rs =
           Some (extend acc res, rs @ [?url])"
      and ok: "\<And>xs. res = Inr xs \<Longrightarrow> answered (decode_MergeRequests env) (http_Get env ?url)"
    for res
  proof -
    have "MR_run env gitlabUrl token (Id' project) page res [?url]"
      by (rule MR_run_stop) (rule run)
    then have "MR_post env gitlabUrl token (Id' project) page res [?url]"
      using ok by (auto simp: MR_post_def)
    with y show ?thesis by blast
  qed
  show ?case
  proof (cases "http_Get env ?url")
    case (Inl e)
    show ?thesis
    proof (rule stop[of "Inl (Fatal_Get e)"])
      show "y = (extend merge_requests (Inl (Fatal_Get e)), reqs @ [?url])"
        using 1(2) Inl by simp
    next
      fix p :: Project and acc rs assume "Id' p = Id' project"
      then show "GetMergeRequests_loop env gitlabUrl token p page acc rs =
           Some (extend acc (Inl (Fatal_Get e)), rs @ [?url])"
        by (subst GetMergeRequests_loop.simps) (simp add: Inl)
    qed simp
  next
    case (Inr response)
    note get = Inr
    show ?thesis
    proof (cases "decode_MergeRequests env (Body response)")
      case (Inl e)
      show ?thesis
      proof (rule stop[of "Inl (Fatal_Decode e)"])
        show "y = (extend merge_requests (Inl (Fatal_Decode e)), reqs @ [?url])"
          using 1(2) get Inl by simp
      next
        fix p :: Project and acc rs assume "Id' p = Id' project"
        then show "GetMergeRequests_loop env gitlabUrl token p page acc rs =
             Some (extend acc (Inl (Fatal_Decode e)), rs @ [?url])"
          by (subst GetMergeRequests_loop.simps) (simp add: get Inl)
      qed simp
    next
      case (Inr mergesInPage)
      note dec = Inr
      consider (absent) "Header response ''X-Next-Page'' = None \<or> Header response ''X-Next-Page'' = Some []"
        | (empty) rest where "Header response ''X-Next-Page'' = Some ('''' # rest)"
        | (bad) s rest e where "Header response ''X-Next-Page'' = Some (s # rest)" "s \<noteq> ''''" "Atoi s = Inl e"
        | (more) s rest n where "Header response ''X-Next-Page'' = Some (s # rest)" "s \<noteq> ''''" "Atoi s = Inr n"
        by (cases "Header response ''X-Next-Page''"; cases "the (Header response ''X-Next-Page'')";
            cases "Atoi (hd (the (Header response ''X-Next-Page'')))";
            cases "hd (the (Header response ''X-Next-Page'')) = ''''") auto
      then show ?thesis
      proof cases
        case absent
        show ?thesis
        proof (rule stop[of "Inl Panic_index_out_of_range"])
          show "y = (extend merge_requests (Inl Panic_index_out_of_range), reqs @ [?url])"
            using 1(2) get dec absent by auto
        next
          fix p :: Project and acc rs assume "Id' p = Id' project"
          then show "GetMergeRequests_loop env gitlabUrl token p page acc rs =
               Some (extend acc (Inl Panic_index_out_of_range), rs @ [?url])"
            using absent by (subst GetMergeRequests_loop.simps) (auto simp: get dec)
        qed simp
      next
        case empty
        show ?thesis
        proof (rule stop[of "Inr mergesInPage"])
          show "y = (extend merge_requests (Inr mergesInPage), reqs @ [?url])"
            using 1(2) get dec empty by simp
        next
          fix p :: Project and acc rs assume "Id' p = Id' project"
          then show "GetMergeRequests_loop env gitlabUrl token p page acc rs =
               Some (extend acc (Inr mergesInPage), rs @ [?url])"
            by (subst GetMergeRequests_loop.simps) (simp add: get dec empty)
        next
          show "answered (decode_MergeRequests env) (http_Get env ?url)"
            by (simp add: answered_def get dec empty)
        qed
      next
        case bad
        show ?thesis
        proof (rule stop[of "Inl (Fatal_Atoi e)"])
          show "y = (extend merge_requests (Inl (Fatal_Atoi e)), reqs @ [?url])"
            using 1(2) get dec bad by simp
        next
          fix p :: Project and acc rs assume "Id' p = Id' project"
          then show "GetMergeRequests_loop env gitlabUrl token p page acc rs =
               Some (extend acc (Inl (Fatal_Atoi e)), rs @ [?url])"
            by (subst GetMergeRequests_loop.simps) (simp add: get dec bad)
        qed simp
      next
        case more
        have "f env gitlabUrl token project n (merge_requests @ mergesInPage) (reqs @ [?url]) = Some y"
          using 1(2) get dec more by simp
        from 1(1)[OF this] obtain res new where
          y: "y = (extend (merge_requests @ mergesInPage) res, (reqs @ [?url]) @ new)"
          and post: "MR_post env gitlabUrl token (Id' project) n res new"
          by blast
        have "MR_run env gitlabUrl token (Id' project) page (extend mergesInPage res) (?url # new)"
        proof (rule MR_run_continue[OF get dec more])
          show "MR_run env gitlabUrl token (Id' project) n res new"
            using post by (simp add: MR_post_def)
        qed
        moreover have "answered (decode_MergeRequests env) (http_Get env ?url)"
          by (simp add: answered_def get dec more)
        ultimately have "MR_post env gitlabUrl token (Id' project) page (extend mergesInPage res) (?url # new)"
          using post by (cases res) (auto simp: MR_post_def)
        with y show ?thesis
          by (intro exI[of _ "extend mergesInPage res"] exI[of _ "?url # new"]) simp
      qed
    qed
  qed
qed

section \<open>The loop over the projects of a page\<close>

lemma extend_Nil [simp]: "extend [] r = r"
  by (cases r) simp_all

lemma GetMergeRequests_Some:
  assumes "GetMergeRequests env project gitlabUrl token reqs = Some (r, reqs')"
  shows "\<exists>new. reqs' = reqs @ new \<and> MR_post env gitlabUrl token (Id' project) 1 r new"
  using MR_loop_Some[OF assms[unfolded GetMergeRequests_def]] by auto

lemma MR_post_GetMergeRequests:
  assumes "MR_post env gitlabUrl token pid 1 r new" and "Id' project = pid"
  shows "GetMergeRequests env project gitlabUrl token reqs = Some (r, reqs @ new)"
  using assms by (simp add: MR_post_def MR_run_def GetMergeRequests_def)

lemma GetMergeRequests_None:
  assumes "GetMergeRequests env project gitlabUrl token reqs = None"
    and "Id' project2 = Id' project"
  shows "GetMergeRequests env project2 gitlabUrl token reqs2 = None"
proof (cases "GetMergeRequests env project2 gitlabUrl token reqs2")
  case None
  then show ?thesis .
next
  case (Some y)
  obtain r reqs' where "y = (r, reqs')" by (cases y)
  with Some GetMergeRequests_Some obtain new where
    "MR_post env gitlabUrl token (Id' project2) 1 r new" by blast
  then have "GetMergeRequests env project gitlabUrl token reqs = Some (r, reqs @ new)"
    by (rule MR_post_GetMergeRequests) (simp add: assms(2))
  with assms(1) show ?thesis by simp
qed

lemma Id'_SetMergeRequests [simp]: "Id' (SetMergeRequests project mrs) = Id' project"
  by (simp add: SetMergeRequests_def)

lemma MergeRequests_SetMergeRequests [simp]:
  "MergeRequests (SetMergeRequests project mrs) = mrs"
  by (simp add: SetMergeRequests_def)

lemma complete_SetMergeRequests:
  assumes "GetMergeRequests env project gitlabUrl token reqs = Some (Inr mrs, reqs')"
  shows "complete env gitlabUrl token (SetMergeRequests project mrs)"
proof -
  from GetMergeRequests_Some[OF assms] obtain new where
    post: "MR_post env gitlabUrl token (Id' project) 1 (Inr mrs) new" by blast
  have "\<forall>rs. GetMergeRequests env (SetMergeRequests project mrs) gitlabUrl token rs =
          Some (Inr mrs, rs @ new)"
    using MR_post_GetMergeRequests[OF post] by simp
  then show ?thesis unfolding complete_def by auto
qed

lemma attach_loop_Some:
  "attach_loop env gitlabUrl token i ps reqs = Some (r, reqs') \<Longrightarrow>
     \<exists>new. reqs' = reqs @ new \<and> attach_post env gitlabUrl token i ps r new"
proof (induction env gitlabUrl token i ps reqs arbitrary: r reqs' rule: attach_loop.induct)
  case (1 env gitlabUrl token i ps reqs)
  show ?case
  proof (cases "i < length ps")
    case False
    with 1(2) have "r = Inr ps" "reqs' = reqs"
      by (simp_all add: attach_loop.simps)
    with False show ?thesis by (simp add: attach_post_def)
  next
    case True
    from 1(2) True obtain x rs where g: "GetMergeRequests env (ps ! i) gitlabUrl token reqs = Some (x, rs)"
      by (subst (asm) attach_loop.simps) (auto split: option.splits)
    from GetMergeRequests_Some[OF g] obtain new1 where
      rs: "rs = reqs @ new1" and post1: "MR_post env gitlabUrl token (Id' (ps ! i)) 1 x new1"
      by blast
    have sub1: "set new1 \<subseteq> (\<Union>pid. range (mergesUrl gitlabUrl pid token))"
      using post1 by (auto simp: MR_post_def)
    show ?thesis
    proof (cases x)
      case (Inl e)
      with 1(2) True g have "r = Inl e" "reqs' = rs"
        by (simp_all add: attach_loop.simps)
      with rs sub1 show ?thesis by (simp add: attach_post_def)
    next
      case (Inr mrs)
      let ?ps1 = "ps[i := SetMergeRequests (ps ! i) mrs]"
      have rec: "attach_loop env gitlabUrl token (Suc i) ?ps1 rs = Some (r, reqs')"
        using 1(2) True g Inr by (subst (asm) attach_loop.simps) simp
      from 1(1)[OF True g refl Inr rec] obtain new2 where
        r2: "reqs' = rs @ new2" and post2: "attach_post env gitlabUrl token (Suc i) ?ps1 r new2"
        by blast
      have c: "complete env gitlabUrl token (SetMergeRequests (ps ! i) mrs)"
        using g Inr by (auto intro: complete_SetMergeRequests)
      have a1: "\<forall>u \<in> set new1. answered (decode_MergeRequests env) (http_Get env u)"
        using post1 Inr by (simp add: MR_post_def)
      have "attach_post env gitlabUrl token i ps r (new1 @ new2)"
        unfolding attach_post_def
      proof (intro conjI allI impI)
        show "set (new1 @ new2) \<subseteq> (\<Union>pid. range (mergesUrl gitlabUrl pid token))"
          using sub1 post2 by (simp add: attach_post_def)
      next
        fix ps' assume r: "r = Inr ps'"
        with post2 have len: "length ps' = length ps"
          and upd: "\<forall>j < length ps. ps' ! j = (if j < Suc i then ?ps1 ! j else SetMergeRequests (?ps1 ! j) (MergeRequests (ps' ! j)))"
          and com: "\<forall>j < length ps. Suc i \<le> j \<longrightarrow> complete env gitlabUrl token (ps' ! j)"
          and a2: "\<forall>u \<in> set new2. answered (decode_MergeRequests env) (http_Get env u)"
          by (simp_all add: attach_post_def)
        show "length ps' = length ps" by (rule len)
        show "\<forall>u\<in>set (new1 @ new2). answered (decode_MergeRequests env) (http_Get env u)"
          using a1 a2 by auto
        have at_i: "ps' ! i = SetMergeRequests (ps ! i) mrs"
          using upd[rule_format, OF True] True by simp
        show "\<And>j. j < length ps \<Longrightarrow> ps' ! j = (if j < i then ps ! j else SetMergeRequests (ps ! j) (MergeRequests (ps' ! j)))"
        proof -
          fix j assume j: "j < length ps"
          consider "j < i" | "j = i" | "i < j" by linarith
          then show "ps' ! j = (if j < i then ps ! j else SetMergeRequests (ps ! j) (MergeRequests (ps' ! j)))"
          proof cases
            case 1 with upd[rule_format, OF j] j show ?thesis by simp
          next
            case 2 with at_i show ?thesis by simp
          next
            case 3 with upd[rule_format, OF j] j show ?thesis by simp
          qed
        qed
        show "\<And>j. j < length ps \<Longrightarrow> i \<le> j \<Longrightarrow> complete env gitlabUrl token (ps' ! j)"
        proof -
          fix j assume j: "j < length ps" "i \<le> j"
          show "complete env gitlabUrl token (ps' ! j)"
          proof (cases "j = i")
            case True with at_i c show ?thesis by simp
          next
            case False with j com[rule_format, OF j(1)] show ?thesis by simp
          qed
        qed
      qed
      with r2 rs show ?thesis by auto
    qed
  qed
qed

section \<open>The project loop\<close>

lemma attach_post_complete:
  assumes "attach_post env gitlabUrl token 0 ps (Inr ps') new"
  shows "\<forall>p \<in> set ps'. complete env gitlabUrl token p"
proof
  fix p assume "p \<in> set ps'"
  then obtain j where j: "j < length ps'" "ps' ! j = p" by (auto simp: in_set_conv_nth)
  with assms show "complete env gitlabUrl token p"
    by (auto simp: attach_post_def)
qed

lemma Repo_loop_Some:
  assumes "GetRepositories_loop env gitlabUrl token page projects reqs = Some y"
  shows "\<exists>res new. y = (extend projects res, reqs @ new)
           \<and> repo_post env gitlabUrl token page res new"
  using assms
proof (induction env gitlabUrl token page projects reqs y
         rule: GetRepositories_loop.raw_induct[rotated 1, consumes 1])
  case (1 f env gitlabUrl token page projects reqs y)
  let ?url = "projectsUrl gitlabUrl token page"
  have fail: "\<exists>res new. y = (extend projects res, reqs @ new)
           \<and> repo_post env gitlabUrl token page res new"
    if "y = (Inl e, reqs @ ?url # more)" for e more
    using that by (intro exI[of _ "Inl e"] exI[of _ "?url # more"]) (simp add: repo_post_def)
  show ?case
  proof (cases "http_Get env ?url")
    case (Inl e)
    with 1(2) show ?thesis by (intro fail[of "Fatal_Get e" "[]"]) simp
  next
    case (Inr response)
    note get = Inr
    show ?thesis
    proof (cases "decode_Projects env (Body response)")
      case (Inl e)
      with 1(2) get show ?thesis by (intro fail[of "Fatal_Decode e" "[]"]) simp
    next
      case (Inr projectsInPage)
      note dec = Inr
      from 1(2) get dec obtain x rs where
        att: "attach_loop env gitlabUrl token 0 projectsInPage (reqs @ [?url]) = Some (x, rs)"
        by (auto split: option.splits)
      from attach_loop_Some[OF att] obtain new1 where
        rs: "rs = (reqs @ [?url]) @ new1"
        and post1: "attach_post env gitlabUrl token 0 projectsInPage x new1"
        by blast
      show ?thesis
      proof (cases x)
        case (Inl e)
        with 1(2) get dec att rs show ?thesis by (intro fail[of e new1]) simp
      next
        case (Inr ps')
        note x = Inr
        have com: "\<forall>p \<in> set ps'. complete env gitlabUrl token p"
          using post1 x by (auto intro: attach_post_complete[rule_format])
        have a1: "\<forall>u \<in> set new1. request_answered env gitlabUrl token u"
        proof
          fix u assume u: "u \<in> set new1"
          from post1 have "set new1 \<subseteq> (\<Union>pid. range (mergesUrl gitlabUrl pid token))"
            by (simp add: attach_post_def)
          with u have "u \<in> (\<Union>pid. range (mergesUrl gitlabUrl pid token))" by blast
          moreover from post1 x u have "answered (decode_MergeRequests env) (http_Get env u)"
            by (simp add: attach_post_def)
          ultimately show "request_answered env gitlabUrl token u"
            unfolding request_answered_def by blast
        qed
        consider (absent) "Header response ''X-Next-Page'' = None \<or> Header response ''X-Next-Page'' = Some []"
          | (empty) rest where "Header response ''X-Next-Page'' = Some ('''' # rest)"
          | (bad) s rest e where "Header response ''X-Next-Page'' = Some (s # rest)" "s \<noteq> ''''" "Atoi s = Inl e"
          | (more) s rest n where "Header response ''X-Next-Page'' = Some (s # rest)" "s \<noteq> ''''" "Atoi s = Inr n"
          by (cases "Header response ''X-Next-Page''"; cases "the (Header response ''X-Next-Page'')";
              cases "Atoi (hd (the (Header response ''X-Next-Page'')))";
              cases "hd (the (Header response ''X-Next-Page'')) = ''''") auto
        then show ?thesis
        proof cases
          case absent
          with 1(2) get dec att x rs show ?thesis
            by (intro fail[of Panic_index_out_of_range new1]) auto
        next
          case empty
          have "answered (decode_Projects env) (http_Get env ?url)"
            by (simp add: answered_def get dec empty)
          then have "request_answered env gitlabUrl token ?url"
            unfolding request_answered_def by blast
          with com a1 have "repo_post env gitlabUrl token page (Inr ps') (?url # new1)"
            by (auto simp: repo_post_def)
          moreover have "y = (extend projects (Inr ps'), reqs @ ?url # new1)"
            using 1(2) get dec att x rs empty by simp
          ultimately show ?thesis by blast
        next
          case bad
          with 1(2) get dec att x rs show ?thesis
            by (intro fail[of "Fatal_Atoi e" new1]) simp
        next
          case more
          have "f env gitlabUrl token n (projects @ ps') rs = Some y"
            using 1(2) get dec att x more by simp
          from 1(1)[OF this] obtain res new where
            y: "y = (extend (projects @ ps') res, rs @ new)"
            and post: "repo_post env gitlabUrl token n res new"
            by blast
          have "answered (decode_Projects env) (http_Get env ?url)"
            by (simp add: answered_def get dec more)
          then have "request_answered env gitlabUrl token ?url"
            unfolding request_answered_def by blast
          with com a1 post
          have "repo_post env gitlabUrl token page (extend ps' res) (?url # new1 @ new)"
            by (cases res) (auto simp: repo_post_def)
          with y rs show ?thesis
            by (intro exI[of _ "extend ps' res"] exI[of _ "?url # new1 @ new"]) simp
        qed
      qed
    qed
  qed
qed

section \<open>Rendering as lines\<close>

lemma ReplaceAllString_concat:
  "ReplaceAllString s repl = concat (map (\<lambda>c. if c = CHR ''/'' then repl else [c]) s)"
  by (induction s) simp_all

lemma ReplaceAllString_label: "ReplaceAllString (PathWithNamespace project) ''___'' = label project"
  by (simp add: ReplaceAllString_concat label_def)

lemma ReplaceAllString_no_slash: "CHR ''/'' \<notin> set (ReplaceAllString s ''___'')"
  by (induction s) simp_all

lemma ReplaceAllString_id: "CHR ''/'' \<notin> set s \<Longrightarrow> ReplaceAllString s repl = s"
  by (induction s) auto

lemma ReplaceAllString_idem:
  "ReplaceAllString (ReplaceAllString s ''___'') ''___'' = ReplaceAllString s ''___''"
  by (rule ReplaceAllString_id) (rule ReplaceAllString_no_slash)

lemma render_lines_simps [simp]:
  "render_lines [] = []"
  "render_lines (l # ls) = CHR 0x0A # l @ render_lines ls"
  "render_lines (ls @ ms) = render_lines ls @ render_lines ms"
  by (simp_all add: render_lines_def)

lemma foldl_merge_request_stats:
  "foldl (merge_request_stats (label project)) stats mrs =
     stats @ render_lines (map (merge_request_line project) mrs)"
  by (induction mrs arbitrary: stats) (simp_all add: merge_request_stats_def merge_request_line_def)

lemma PrometheusStats_lines: "PrometheusStats project = render_lines (metric_lines project)"
  by (simp add: PrometheusStats_def Let_def ReplaceAllString_label foldl_merge_request_stats
      metric_lines_def counter_lines_def last_activity_line_def counter_line_def)





lemma split_lines_nonempty [simp]: "split_lines s \<noteq> []"
  by (induction s) (auto split: list.splits)




section \<open>Claims about the rendered text\<close>



text \<open>
  C6. The label of a project is its path with every \<open>/\<close> replaced by \<open>___\<close>: the
  normalized path is the path mapped character by character, it contains no \<open>/\<close>,
  normalizing it again leaves it unchanged, and it is the label the rendered text
  carries.
\<close>

theorem path_normalization_idempotent:
  "ReplaceAllString (PathWithNamespace project) ''___'' =
     concat (map (\<lambda>c. if c = CHR ''/'' then ''___'' else [c]) (PathWithNamespace project))
   \<and> CHR ''/'' \<notin> set (ReplaceAllString (PathWithNamespace project) ''___'')
   \<and> ReplaceAllString (ReplaceAllString (PathWithNamespace project) ''___'') ''___'' =
       ReplaceAllString (PathWithNamespace project) ''___''
   \<and> (\<exists>rest. PrometheusStats project =
         ''\<newline>gitlab_project_stars{repo=\"'' @ ReplaceAllString (PathWithNamespace project) ''___''
           @ ''\"} '' @ rest)"
proof (intro conjI)
  show "\<exists>rest. PrometheusStats project =
         ''\<newline>gitlab_project_stars{repo=\"'' @ ReplaceAllString (PathWithNamespace project) ''___''
           @ ''\"} '' @ rest"
    by (simp add: PrometheusStats_lines metric_lines_def counter_lines_def counter_line_def
        ReplaceAllString_label)
qed (simp_all add: ReplaceAllString_concat[symmetric] ReplaceAllString_no_slash ReplaceAllString_idem)

theorem path_normalization_idempotent_witness:
  "ReplaceAllString (PathWithNamespace example_project) ''___'' = ''group___sub___repo''
   \<and> ReplaceAllString ''group___sub___repo'' ''___'' = ''group___sub___repo''"
  using path_normalization_idempotent[of example_project]
  by (simp add: example_project_def)






section \<open>Pages served by a mock\<close>

lemma mocked_pageE:
  assumes "mocked_page get decode url items signal"
  obtains response rest where "get url = Inr response" "decode (Body response) = Inr items"
    "Header response ''X-Next-Page'' = Some (signal # rest)"
  using assms unfolding mocked_page_def
  by (auto split: sum.splits option.splits list.splits)

lemma Atoi_Nil [simp]: "Atoi '''' = Inl ErrSyntax"
  by (simp add: Atoi_def)

lemma MR_page_done:
  assumes "mocked_page (http_Get env) (decode_MergeRequests env)
             (mergesUrl gitlabUrl (Id' project) token page) mergesInPage ''''"
  shows "GetMergeRequests_loop env gitlabUrl token project page merge_requests reqs =
         Some (Inr (merge_requests @ mergesInPage),
               reqs @ [mergesUrl gitlabUrl (Id' project) token page])"
  using assms by (elim mocked_pageE, subst GetMergeRequests_loop.simps) simp

lemma MR_page_bad:
  assumes "mocked_page (http_Get env) (decode_MergeRequests env)
             (mergesUrl gitlabUrl (Id' project) token page) mergesInPage pageHeader"
    and "pageHeader \<noteq> ''''" and "Atoi pageHeader = Inl e"
  shows "GetMergeRequests_loop env gitlabUrl token project page merge_requests reqs =
         Some (Inl (Fatal_Atoi e), reqs @ [mergesUrl gitlabUrl (Id' project) token page])"
  using assms by (elim mocked_pageE, subst GetMergeRequests_loop.simps) simp

lemma MR_page_continue:
  assumes "mocked_page (http_Get env) (decode_MergeRequests env)
             (mergesUrl gitlabUrl (Id' project) token page) mergesInPage pageHeader"
    and "Atoi pageHeader = Inr n"
  shows "GetMergeRequests_loop env gitlabUrl token project page merge_requests reqs =
         GetMergeRequests_loop env gitlabUrl token project n (merge_requests @ mergesInPage)
           (reqs @ [mergesUrl gitlabUrl (Id' project) token page])"
proof -
  from assms(2) have "pageHeader \<noteq> ''''" by auto
  with assms show ?thesis
    by (elim mocked_pageE, subst GetMergeRequests_loop.simps) simp
qed

lemma MR_absent:
  assumes "http_Get env (mergesUrl gitlabUrl (Id' project) token page) = Inr response"
    and "decode_MergeRequests env (Body response) = Inr mergesInPage"
    and "Header response ''X-Next-Page'' = None"
  shows "GetMergeRequests_loop env gitlabUrl token project page merge_requests reqs =
         Some (Inl Panic_index_out_of_range, reqs @ [mergesUrl gitlabUrl (Id' project) token page])"
  using assms by (subst GetMergeRequests_loop.simps) simp

lemma chained_pagesD:
  assumes "chained_pages get decode url items signal N" and "1 \<le> k" and "k < N"
  shows "mocked_page get decode (url (int k)) (items k) (signal k)"
    and "Atoi (signal k) = Inr (int (Suc k))"
proof -
  from assms(2,3) have "k \<in> {1..<N}" by simp
  with assms(1) have *: "mocked_page get decode (url (int k)) (items k) (signal k)
        \<and> Atoi (signal k) = Inr (int k + 1)"
    unfolding chained_pages_def by (rule bspec)
  from * show "mocked_page get decode (url (int k)) (items k) (signal k)" by simp
  from * show "Atoi (signal k) = Inr (int (Suc k))" by simp
qed

lemma MR_reach:
  assumes "chained_pages (http_Get env) (decode_MergeRequests env)
             (mergesUrl gitlabUrl (Id' project) token) items signal N"
    and "1 \<le> j" and "j \<le> N"
  shows "GetMergeRequests_loop env gitlabUrl token project (int j) merge_requests reqs =
         GetMergeRequests_loop env gitlabUrl token project (int N)
           (merge_requests @ concat (map items [j..<N]))
           (reqs @ map (\<lambda>k. mergesUrl gitlabUrl (Id' project) token (int k)) [j..<N])"
  using assms(2,3)
proof (induction "N - j" arbitrary: j merge_requests reqs)
  case 0
  then show ?case by simp
next
  case (Suc d)
  then have lt: "j < N" by simp
  note pg = chained_pagesD[OF assms(1) Suc.prems(1) lt]
  have "d = N - Suc j" "1 \<le> Suc j" "Suc j \<le> N" using Suc.hyps(2) lt by simp_all
  note IH = Suc.hyps(1)[OF this]
  have up: "[j..<N] = j # [Suc j..<N]"
    using lt by (simp add: upt_conv_Cons)
  note MR_page_continue[OF pg]
  also note IH
  finally show ?case unfolding up by simp
qed

lemma fetches_pages:
  assumes "1 \<le> N"
    and "chained_pages (http_Get env) (decode_MergeRequests env)
             (mergesUrl gitlabUrl (Id' project) token) items signal N"
    and "mocked_page (http_Get env) (decode_MergeRequests env)
             (mergesUrl gitlabUrl (Id' project) token (int N)) (items N) ''''"
  shows "fetches env gitlabUrl token project (concat (map items [1..<Suc N]))
           (map (\<lambda>k. mergesUrl gitlabUrl (Id' project) token (int k)) [1..<Suc N])"
  unfolding fetches_def GetMergeRequests_def
proof
  fix reqs
  have "GetMergeRequests_loop env gitlabUrl token project (int 1) [] reqs =
        GetMergeRequests_loop env gitlabUrl token project (int N)
           ([] @ concat (map items [1..<N]))
           (reqs @ map (\<lambda>k. mergesUrl gitlabUrl (Id' project) token (int k)) [1..<N])"
    by (rule MR_reach[OF assms(2) _ assms(1)]) simp
  also note MR_page_done[OF assms(3)]
  finally show "GetMergeRequests_loop env gitlabUrl token project 1 [] reqs =
       Some (Inr (concat (map items [1..<Suc N])),
             reqs @ map (\<lambda>k. mergesUrl gitlabUrl (Id' project) token (int k)) [1..<Suc N])"
    using assms(1) by simp
qed

lemma fetches_one_page:
  assumes "mocked_page (http_Get env) (decode_MergeRequests env)
             (mergesUrl gitlabUrl (Id' project) token 1) mrs ''''"
  shows "fetches env gitlabUrl token project mrs [mergesUrl gitlabUrl (Id' project) token 1]"
  unfolding fetches_def GetMergeRequests_def using MR_page_done[OF assms] by simp

lemma fetches_requests:
  assumes "fetches env gitlabUrl token project mrs new"
  shows "set new \<subseteq> range (mergesUrl gitlabUrl (Id' project) token)"
proof -
  from assms have "GetMergeRequests env project gitlabUrl token [] = Some (Inr mrs, new)"
    by (simp add: fetches_def)
  from GetMergeRequests_Some[OF this] show ?thesis by (simp add: MR_post_def)
qed

lemma attach_loop_fetches:
  assumes "\<forall>j < length ps. i \<le> j \<longrightarrow> fetches env gitlabUrl token (ps ! j) (mrs (ps ! j)) (mreqs (ps ! j))"
  shows "attach_loop env gitlabUrl token i ps reqs =
         Some (Inr (take i ps @ map (\<lambda>p. SetMergeRequests p (mrs p)) (drop i ps)),
               reqs @ concat (map mreqs (drop i ps)))"
  using assms
proof (induction env gitlabUrl token i ps reqs rule: attach_loop.induct)
  case (1 env gitlabUrl token i ps reqs)
  show ?case
  proof (cases "i < length ps")
    case False
    then show ?thesis by (simp add: attach_loop.simps)
  next
    case True
    let ?p = "ps ! i"
    let ?ps1 = "ps[i := SetMergeRequests ?p (mrs ?p)]"
    from 1(2) True have g: "GetMergeRequests env ?p gitlabUrl token reqs =
        Some (Inr (mrs ?p), reqs @ mreqs ?p)"
      by (simp add: fetches_def)
    have prem: "\<forall>j < length ?ps1. Suc i \<le> j \<longrightarrow>
        fetches env gitlabUrl token (?ps1 ! j) (mrs (?ps1 ! j)) (mreqs (?ps1 ! j))"
      using 1(2) by simp
    note IH = 1(1)[OF True g refl refl prem]
    have dr: "drop i ps = ?p # drop (Suc i) ps"
      using True by (simp add: Cons_nth_drop_Suc)
    have tk: "take (Suc i) ?ps1 = take i ps @ [SetMergeRequests ?p (mrs ?p)]"
      using True by (simp add: take_Suc_conv_app_nth)
    have "attach_loop env gitlabUrl token i ps reqs =
          attach_loop env gitlabUrl token (Suc i) ?ps1 (reqs @ mreqs ?p)"
      using True g by (subst attach_loop.simps) simp
    also note IH
    finally show ?thesis unfolding dr tk by simp
  qed
qed

lemma Repo_page_done:
  assumes "mocked_page (http_Get env) (decode_Projects env)
             (projectsUrl gitlabUrl token page) projectsInPage ''''"
    and "attach_loop env gitlabUrl token 0 projectsInPage
           (reqs @ [projectsUrl gitlabUrl token page]) = Some (Inr ps', reqs1)"
  shows "GetRepositories_loop env gitlabUrl token page projects reqs =
         Some (Inr (projects @ ps'), reqs1)"
  using assms by (elim mocked_pageE, subst GetRepositories_loop.simps) simp

lemma Repo_page_bad:
  assumes "mocked_page (http_Get env) (decode_Projects env)
             (projectsUrl gitlabUrl token page) projectsInPage pageHeader"
    and "attach_loop env gitlabUrl token 0 projectsInPage
           (reqs @ [projectsUrl gitlabUrl token page]) = Some (Inr ps', reqs1)"
    and "pageHeader \<noteq> ''''" and "Atoi pageHeader = Inl e"
  shows "GetRepositories_loop env gitlabUrl token page projects reqs =
         Some (Inl (Fatal_Atoi e), reqs1)"
  using assms by (elim mocked_pageE, subst GetRepositories_loop.simps) simp

lemma Repo_page_continue:
  assumes "mocked_page (http_Get env) (decode_Projects env)
             (projectsUrl gitlabUrl token page) projectsInPage pageHeader"
    and "attach_loop env gitlabUrl token 0 projectsInPage
           (reqs @ [projectsUrl gitlabUrl token page]) = Some (Inr ps', reqs1)"
    and "Atoi pageHeader = Inr n"
  shows "GetRepositories_loop env gitlabUrl token page projects reqs =
         GetRepositories_loop env gitlabUrl token n (projects @ ps') reqs1"
proof -
  from assms(3) have "pageHeader \<noteq> ''''" by auto
  with assms show ?thesis
    by (elim mocked_pageE, subst GetRepositories_loop.simps) simp
qed

lemma Repo_absent:
  assumes "http_Get env (projectsUrl gitlabUrl token page) = Inr response"
    and "decode_Projects env (Body response) = Inr projectsInPage"
    and "attach_loop env gitlabUrl token 0 projectsInPage
           (reqs @ [projectsUrl gitlabUrl token page]) = Some (Inr ps', reqs1)"
    and "Header response ''X-Next-Page'' = None"
  shows "GetRepositories_loop env gitlabUrl token page projects reqs =
         Some (Inl Panic_index_out_of_range, reqs1)"
  using assms by (subst GetRepositories_loop.simps) simp

lemma fetches_page:
  assumes "\<forall>k \<in> {1..N}. \<forall>p \<in> set (items k). fetches env gitlabUrl token p (mrs p) (mreqs p)"
    and "1 \<le> k" and "k \<le> N"
  shows "\<forall>i < length (items k). 0 \<le> i \<longrightarrow>
          fetches env gitlabUrl token (items k ! i) (mrs (items k ! i)) (mreqs (items k ! i))"
proof (intro allI impI)
  fix i assume "i < length (items k)"
  then have "items k ! i \<in> set (items k)" by simp
  moreover have "k \<in> {1..N}" using assms(2,3) by simp
  ultimately show "fetches env gitlabUrl token (items k ! i) (mrs (items k ! i)) (mreqs (items k ! i))"
    using assms(1) by blast
qed

lemma attach_page:
  assumes "\<forall>k \<in> {1..N}. \<forall>p \<in> set (items k). fetches env gitlabUrl token p (mrs p) (mreqs p)"
    and "1 \<le> k" and "k \<le> N"
  shows "attach_loop env gitlabUrl token 0 (items k) (reqs @ [projectsUrl gitlabUrl token (int k)]) =
         Some (Inr (enriched mrs (items k)),
               reqs @ page_requests gitlabUrl token mreqs k (items k))"
  using attach_loop_fetches[OF fetches_page[OF assms], of "reqs @ [projectsUrl gitlabUrl token (int k)]"]
  by (simp add: enriched_def page_requests_def)

lemma Repo_reach:
  assumes "chained_pages (http_Get env) (decode_Projects env) (projectsUrl gitlabUrl token)
             items signal N"
    and "\<forall>k \<in> {1..N}. \<forall>p \<in> set (items k). fetches env gitlabUrl token p (mrs p) (mreqs p)"
    and "1 \<le> j" and "j \<le> N"
  shows "GetRepositories_loop env gitlabUrl token (int j) projects reqs =
         GetRepositories_loop env gitlabUrl token (int N)
           (projects @ concat (map (\<lambda>k. enriched mrs (items k)) [j..<N]))
           (reqs @ concat (map (\<lambda>k. page_requests gitlabUrl token mreqs k (items k)) [j..<N]))"
  using assms(3,4)
proof (induction "N - j" arbitrary: j projects reqs)
  case 0
  then show ?case by simp
next
  case (Suc d)
  then have lt: "j < N" by simp
  note pg = chained_pagesD[OF assms(1) Suc.prems(1) lt]
  have "j \<le> N" using lt by simp
  note att = attach_page[OF assms(2) Suc.prems(1) this]
  have "d = N - Suc j" "1 \<le> Suc j" "Suc j \<le> N" using Suc.hyps(2) lt by simp_all
  note IH = Suc.hyps(1)[OF this]
  have up: "[j..<N] = j # [Suc j..<N]"
    using lt by (simp add: upt_conv_Cons)
  note Repo_page_continue[OF pg(1) att pg(2)]
  also note IH
  finally show ?case unfolding up by simp
qed

lemma mergesUrl_not_projectsUrl:
  "mergesUrl gitlabUrl pid token page \<noteq> projectsUrl gitlabUrl token page'"
  by (simp add: mergesUrl_def projectsUrl_def)

lemma filter_page_requests:
  assumes "\<forall>k \<in> set ks. \<forall>p \<in> set (items k). fetches env gitlabUrl token p (mrs p) (mreqs p)"
  shows "filter (\<lambda>u. u \<in> range (projectsUrl gitlabUrl token))
           (concat (map (\<lambda>k. page_requests gitlabUrl token mreqs k (items k)) ks)) =
         map (\<lambda>k. projectsUrl gitlabUrl token (int k)) ks"
  using assms
proof (induction ks)
  case Nil
  then show ?case by simp
next
  case (Cons k ks)
  have "\<forall>p \<in> set (items k). \<forall>u \<in> set (mreqs p). u \<notin> range (projectsUrl gitlabUrl token)"
  proof (intro ballI)
    fix p u assume "p \<in> set (items k)" "u \<in> set (mreqs p)"
    with Cons.prems fetches_requests[of env gitlabUrl token p "mrs p" "mreqs p"]
    have "u \<in> range (mergesUrl gitlabUrl (Id' p) token)" by auto
    then show "u \<notin> range (projectsUrl gitlabUrl token)"
      using mergesUrl_not_projectsUrl by auto
  qed
  then have "filter (\<lambda>u. u \<in> range (projectsUrl gitlabUrl token)) (concat (map mreqs (items k))) = []"
    by (auto simp: filter_empty_conv)
  with Cons show ?case by (simp add: page_requests_def)
qed

section \<open>Reading back a printed integer\<close>

lemma digit_val_digit_char: "d < 10 \<Longrightarrow> digit_val (digit_char d) = Some d"
proof -
  assume "d < 10"
  then have "d \<in> {0, 1, 2, 3, 4, 5, 6, 7, 8, 9}" by auto
  then show ?thesis
    by (auto simp: digit_val_def digit_char_def)
qed

lemma digit_char_not_sign: "d < 10 \<Longrightarrow> digit_char d \<noteq> CHR ''+'' \<and> digit_char d \<noteq> CHR ''-''"
proof -
  assume "d < 10"
  then have "d \<in> {0, 1, 2, 3, 4, 5, 6, 7, 8, 9}" by auto
  then show ?thesis
    by (auto simp: digit_char_def)
qed

lemma ParseUint_loop_append:
  "ParseUint_loop (xs @ ys) n =
     (case ParseUint_loop xs n of Inl e \<Rightarrow> Inl e | Inr n' \<Rightarrow> ParseUint_loop ys n')"
  by (induction xs arbitrary: n) (auto split: option.splits)

lemma fmt_nat_nonempty: "fmt_nat m \<noteq> []"
  by (subst fmt_nat.simps) simp

lemma hd_fmt_nat: "\<exists>d < 10. hd (fmt_nat m) = digit_char d"
proof (induction m rule: fmt_nat.induct)
  case (1 n)
  show ?case
  proof (cases "n < 10")
    case True
    then show ?thesis by (subst fmt_nat.simps) auto
  next
    case False
    with 1 obtain d where "d < 10" "hd (fmt_nat (n div 10)) = digit_char d" by blast
    with False show ?thesis
      by (subst fmt_nat.simps) (auto simp: fmt_nat_nonempty)
  qed
qed

lemma ParseUint_loop_fmt_nat:
  "m \<le> 18446744073709551615 \<Longrightarrow> ParseUint_loop (fmt_nat m) 0 = Inr m"
proof (induction m rule: fmt_nat.induct)
  case (1 n)
  show ?case
  proof (cases "n < 10")
    case True
    with 1(2) show ?thesis
      by (subst fmt_nat.simps) (simp add: digit_val_digit_char)
  next
    case False
    have "n div 10 \<le> 18446744073709551615" using 1(2) by simp
    with 1(1) False have IH: "ParseUint_loop (fmt_nat (n div 10)) 0 = Inr (n div 10)" by simp
    have md: "n mod 10 < 10" by simp
    have "n div 10 * 10 + n mod 10 = n" by simp
    with 1(2) False IH show ?thesis
      by (subst fmt_nat.simps)
         (simp add: ParseUint_loop_append digit_val_digit_char[OF md] del: div_mult_mod_eq)
  qed
qed

lemma Atoi_fmt_d:
  assumes "- 9223372036854775808 \<le> n" and "n < 9223372036854775808"
  shows "Atoi (fmt_d n) = Inr n"
proof (cases "n < 0")
  case True
  let ?m = "nat (- n)"
  have le: "?m \<le> 9223372036854775808" using assms(1) by simp
  then have "?m \<le> 18446744073709551615" by simp
  then have "ParseUint (fmt_nat ?m) = Inr ?m"
    by (simp add: ParseUint_def fmt_nat_nonempty ParseUint_loop_fmt_nat)
  with True le show ?thesis
    by (simp add: Atoi_def fmt_d_def)
next
  case False
  let ?m = "nat n"
  have lt: "?m < 9223372036854775808" using assms(2) by simp
  then have "?m \<le> 18446744073709551615" by simp
  then have pu: "ParseUint (fmt_nat ?m) = Inr ?m"
    by (simp add: ParseUint_def fmt_nat_nonempty ParseUint_loop_fmt_nat)
  obtain c cs where s: "fmt_nat ?m = c # cs"
    using fmt_nat_nonempty[of ?m] by (cases "fmt_nat ?m") auto
  from hd_fmt_nat[of ?m] s obtain d where "d < 10" "c = digit_char d" by auto
  then have "c \<noteq> CHR ''+''" "c \<noteq> CHR ''-''" using digit_char_not_sign by auto
  with False lt pu s show ?thesis
    by (simp add: Atoi_def fmt_d_def)
qed

lemma Atoi_fmt_d_next_page:
  "int k + 1 < 9223372036854775808 \<Longrightarrow> Atoi (fmt_d (int k + 1)) = Inr (int k + 1)"
  by (rule Atoi_fmt_d) simp_all

text \<open>
  So a page whose signal is the decimal rendering of \<open>k + 1\<close>, as the upstream writes
  it, is a page whose signal reads \<open>k + 1\<close>.
\<close>

lemma chained_pages_decimal:
  assumes "int N < 9223372036854775808"
    and "\<forall>k \<in> {1..<N}. mocked_page get decode (url (int k)) (items k) (fmt_d (int k + 1))"
  shows "chained_pages get decode url items (\<lambda>k. fmt_d (int k + 1)) N"
  unfolding chained_pages_def
proof (intro ballI conjI)
  fix k assume k: "k \<in> {1..<N}"
  with assms(2) show "mocked_page get decode (url (int k)) (items k) (fmt_d (int k + 1))"
    by blast
  from k assms(1) have "int k + 1 < 9223372036854775808" by simp
  then show "Atoi (fmt_d (int k + 1)) = Inr (int k + 1)"
    by (rule Atoi_fmt_d_next_page)
qed

section \<open>Mock upstreams\<close>

lemmas url_eval = projectsUrl_def mergesUrl_def fmt_d_def fmt_nat.simps digit_char_def

lemmas Atoi_eval = Atoi_def ParseUint_def digit_val_def

lemmas mock_eval = mock_env_def mock_response_def mock_decode_Projects_def
  mock_decode_MergeRequests_def mocked_page_def mock_project_def

lemma two_pages_p1:
  "mocked_page (http_Get (mock_env two_pages)) (decode_Projects (mock_env two_pages))
     (projectsUrl ''https://git.example.com'' ''tok123'' 1)
     [mock_project 1 ''group/one'', mock_project 2 ''group/two''] ''2''"
  by (simp add: mock_eval two_pages_def url_eval)

lemma two_pages_p2:
  "mocked_page (http_Get (mock_env two_pages)) (decode_Projects (mock_env two_pages))
     (projectsUrl ''https://git.example.com'' ''tok123'' 2)
     [mock_project 3 ''group/sub/three''] ''''"
  by (simp add: mock_eval two_pages_def url_eval)

lemma two_pages_m1:
  "mocked_page (http_Get (mock_env two_pages)) (decode_MergeRequests (mock_env two_pages))
     (mergesUrl ''https://git.example.com'' 1 ''tok123'' 1)
     [mock_merge_request ''a'', mock_merge_request ''b'', mock_merge_request ''c''] ''''"
  by (simp add: mock_eval two_pages_def url_eval)

lemma two_pages_m2:
  "mocked_page (http_Get (mock_env two_pages)) (decode_MergeRequests (mock_env two_pages))
     (mergesUrl ''https://git.example.com'' 2 ''tok123'' 1) [] ''''"
  by (simp add: mock_eval two_pages_def url_eval)

lemma two_pages_m3_1:
  "mocked_page (http_Get (mock_env two_pages)) (decode_MergeRequests (mock_env two_pages))
     (mergesUrl ''https://git.example.com'' 3 ''tok123'' 1) [mock_merge_request ''d''] ''2''"
  by (simp add: mock_eval two_pages_def url_eval)

lemma two_pages_m3_2:
  "mocked_page (http_Get (mock_env two_pages)) (decode_MergeRequests (mock_env two_pages))
     (mergesUrl ''https://git.example.com'' 3 ''tok123'' 2) [mock_merge_request ''e''] ''''"
  by (simp add: mock_eval two_pages_def url_eval)

lemma Atoi_2: "Atoi ''2'' = Inr 2"
  by (simp add: Atoi_eval)

section \<open>Pagination of the project fetcher\<close>

lemma two_pages_chained:
  "chained_pages (http_Get (mock_env two_pages)) (decode_Projects (mock_env two_pages))
     (projectsUrl ''https://git.example.com'' ''tok123'') two_pages_items (\<lambda>k. ''2'') 2"
  unfolding chained_pages_def
proof (intro ballI)
  fix k :: nat assume "k \<in> {1..<2}"
  then have k: "k = 1" by auto
  show "mocked_page (http_Get (mock_env two_pages)) (decode_Projects (mock_env two_pages))
          (projectsUrl ''https://git.example.com'' ''tok123'' (int k)) (two_pages_items k) ''2''
        \<and> Atoi ''2'' = Inr (int k + 1)"
    using two_pages_p1 Atoi_2 by (simp add: k two_pages_items_def)
qed

lemma two_pages_last:
  "mocked_page (http_Get (mock_env two_pages)) (decode_Projects (mock_env two_pages))
     (projectsUrl ''https://git.example.com'' ''tok123'' (int 2)) (two_pages_items 2) ''''"
  using two_pages_p2 by (simp add: two_pages_items_def)

lemma two_pages_fetches_3:
  "fetches (mock_env two_pages) ''https://git.example.com'' ''tok123''
     (mock_project 3 ''group/sub/three'')
     [mock_merge_request ''d'', mock_merge_request ''e'']
     [mergesUrl ''https://git.example.com'' 3 ''tok123'' 1,
      mergesUrl ''https://git.example.com'' 3 ''tok123'' 2]"
proof -
  let ?items = "\<lambda>k::nat. if k = 1 then [mock_merge_request ''d''] else [mock_merge_request ''e'']"
  have id: "Id' (mock_project 3 ''group/sub/three'') = 3" by (simp add: mock_project_def)
  have ch: "chained_pages (http_Get (mock_env two_pages)) (decode_MergeRequests (mock_env two_pages))
     (mergesUrl ''https://git.example.com'' (Id' (mock_project 3 ''group/sub/three'')) ''tok123'')
     ?items (\<lambda>k. ''2'') 2"
    unfolding chained_pages_def id
  proof (intro ballI)
    fix k :: nat assume "k \<in> {1..<2}"
    then have k: "k = 1" by auto
    show "mocked_page (http_Get (mock_env two_pages)) (decode_MergeRequests (mock_env two_pages))
            (mergesUrl ''https://git.example.com'' 3 ''tok123'' (int k)) (?items k) ''2''
          \<and> Atoi ''2'' = Inr (int k + 1)"
      using two_pages_m3_1 Atoi_2 by (simp add: k)
  qed
  have la: "mocked_page (http_Get (mock_env two_pages)) (decode_MergeRequests (mock_env two_pages))
     (mergesUrl ''https://git.example.com'' (Id' (mock_project 3 ''group/sub/three'')) ''tok123'' (int 2))
     (?items 2) ''''"
    using two_pages_m3_2 by (simp add: id)
  have up: "[1..<Suc 2] = [1, 2]" by (simp add: upt_conv_Cons)
  have "(1::nat) \<le> 2" by simp
  from fetches_pages[OF this ch la] show ?thesis
    unfolding up id by simp
qed

lemma two_pages_fetches:
  "\<forall>k \<in> {1..2}. \<forall>p \<in> set (two_pages_items k).
     fetches (mock_env two_pages) ''https://git.example.com'' ''tok123'' p
       (two_pages_mrs p) (two_pages_mreqs p)"
proof (intro ballI)
  fix k :: nat and p assume "k \<in> {1..2}" and p: "p \<in> set (two_pages_items k)"
  then have "k = 1 \<or> k = 2" by auto
  with p consider "p = mock_project 1 ''group/one''" | "p = mock_project 2 ''group/two''"
    | "p = mock_project 3 ''group/sub/three''"
    by (auto simp: two_pages_items_def)
  then show "fetches (mock_env two_pages) ''https://git.example.com'' ''tok123'' p
       (two_pages_mrs p) (two_pages_mreqs p)"
  proof cases
    case 1
    have id: "Id' p = 1" by (simp add: 1 mock_project_def)
    from two_pages_m1 have "mocked_page (http_Get (mock_env two_pages))
        (decode_MergeRequests (mock_env two_pages))
        (mergesUrl ''https://git.example.com'' (Id' p) ''tok123'' 1)
        [mock_merge_request ''a'', mock_merge_request ''b'', mock_merge_request ''c''] ''''"
      by (simp add: id)
    from fetches_one_page[OF this] show ?thesis
      by (simp add: two_pages_mrs_def two_pages_mreqs_def id)
  next
    case 2
    have id: "Id' p = 2" by (simp add: 2 mock_project_def)
    from two_pages_m2 have "mocked_page (http_Get (mock_env two_pages))
        (decode_MergeRequests (mock_env two_pages))
        (mergesUrl ''https://git.example.com'' (Id' p) ''tok123'' 1) [] ''''"
      by (simp add: id)
    from fetches_one_page[OF this] show ?thesis
      by (simp add: two_pages_mrs_def two_pages_mreqs_def id)
  next
    case 3
    have id: "Id' p = 3" by (simp add: 3 mock_project_def)
    from two_pages_fetches_3 show ?thesis
      unfolding 3 two_pages_mrs_def two_pages_mreqs_def by (simp add: mock_project_def)
  qed
qed

text \<open>
  C1. When pages 1 to \<open>N\<close> of the project list are served so that page \<open>k < N\<close> carries a
  continuation signal that reads \<open>k + 1\<close> and page \<open>N\<close> carries the empty signal (and the
  merge requests of every project on them can be fetched), the project fetcher returns:
  its result is the concatenation of the pages' projects in page order, each with its
  merge requests attached, and the page requests it has issued are those for pages 1 to
  \<open>N\<close>, once each and in order.
\<close>

theorem GetRepositories_pagination:
  assumes "1 \<le> N"
    and "chained_pages (http_Get env) (decode_Projects env) (projectsUrl gitlabUrl token)
           items signal N"
    and "mocked_page (http_Get env) (decode_Projects env) (projectsUrl gitlabUrl token (int N))
           (items N) ''''"
    and "\<forall>k \<in> {1..N}. \<forall>p \<in> set (items k). fetches env gitlabUrl token p (mrs p) (mreqs p)"
  shows "\<exists>new.
           GetRepositories env gitlabUrl token reqs =
             Some (Inr (concat (map (\<lambda>k. enriched mrs (items k)) [1..<Suc N])), reqs @ new)
           \<and> new = concat (map (\<lambda>k. page_requests gitlabUrl token mreqs k (items k)) [1..<Suc N])
           \<and> filter (\<lambda>u. u \<in> range (projectsUrl gitlabUrl token)) new =
               map (\<lambda>k. projectsUrl gitlabUrl token (int k)) [1..<Suc N]
           \<and> length (filter (\<lambda>u. u \<in> range (projectsUrl gitlabUrl token)) new) = N"
proof -
  let ?new = "concat (map (\<lambda>k. page_requests gitlabUrl token mreqs k (items k)) [1..<Suc N])"
  have "GetRepositories env gitlabUrl token reqs =
        GetRepositories_loop env gitlabUrl token (int 1) [] reqs"
    by (simp add: GetRepositories_def)
  also have "\<dots> = GetRepositories_loop env gitlabUrl token (int N)
           ([] @ concat (map (\<lambda>k. enriched mrs (items k)) [1..<N]))
           (reqs @ concat (map (\<lambda>k. page_requests gitlabUrl token mreqs k (items k)) [1..<N]))"
    by (rule Repo_reach[OF assms(2,4) _ assms(1)]) simp
  also have "\<dots> = Some (Inr (([] @ concat (map (\<lambda>k. enriched mrs (items k)) [1..<N]))
                             @ enriched mrs (items N)),
                       (reqs @ concat (map (\<lambda>k. page_requests gitlabUrl token mreqs k (items k)) [1..<N]))
                         @ page_requests gitlabUrl token mreqs N (items N))"
    by (rule Repo_page_done[OF assms(3) attach_page[OF assms(4) assms(1) order_refl]])
  finally have run: "GetRepositories env gitlabUrl token reqs =
      Some (Inr (concat (map (\<lambda>k. enriched mrs (items k)) [1..<Suc N])), reqs @ ?new)"
    using assms(1) by simp
  have "\<forall>k \<in> set [1..<Suc N]. \<forall>p \<in> set (items k). fetches env gitlabUrl token p (mrs p) (mreqs p)"
    using assms(4) by auto
  from filter_page_requests[OF this]
  have fl: "filter (\<lambda>u. u \<in> range (projectsUrl gitlabUrl token)) ?new =
      map (\<lambda>k. projectsUrl gitlabUrl token (int k)) [1..<Suc N]" .
  have "length (filter (\<lambda>u. u \<in> range (projectsUrl gitlabUrl token)) ?new) = N"
    unfolding fl by simp
  with run fl show ?thesis by blast
qed

theorem GetRepositories_pagination_witness:
  "GetRepositories (mock_env two_pages) ''https://git.example.com'' ''tok123'' [] =
     Some (Inr [SetMergeRequests (mock_project 1 ''group/one'')
                  [mock_merge_request ''a'', mock_merge_request ''b'', mock_merge_request ''c''],
                SetMergeRequests (mock_project 2 ''group/two'') [],
                SetMergeRequests (mock_project 3 ''group/sub/three'')
                  [mock_merge_request ''d'', mock_merge_request ''e'']],
           [''https://git.example.com/api/v4/projects?private_token=tok123&per_page=100&statistics=1&page=1'',
            ''https://git.example.com/api/v4/projects/1/merge_requests?private_token=tok123&per_page=100&statistics=1&page=1'',
            ''https://git.example.com/api/v4/projects/2/merge_requests?private_token=tok123&per_page=100&statistics=1&page=1'',
            ''https://git.example.com/api/v4/projects?private_token=tok123&per_page=100&statistics=1&page=2'',
            ''https://git.example.com/api/v4/projects/3/merge_requests?private_token=tok123&per_page=100&statistics=1&page=1'',
            ''https://git.example.com/api/v4/projects/3/merge_requests?private_token=tok123&per_page=100&statistics=1&page=2''])"
proof -
  have up: "[1..<Suc 2] = [1, 2]" by (simp add: upt_conv_Cons)
  have "(1::nat) \<le> 2" by simp
  from GetRepositories_pagination[OF this two_pages_chained two_pages_last two_pages_fetches, of "[]"]
  obtain new where
    run: "GetRepositories (mock_env two_pages) ''https://git.example.com'' ''tok123'' [] =
       Some (Inr (concat (map (\<lambda>k. enriched two_pages_mrs (two_pages_items k)) [1..<Suc 2])), [] @ new)"
    and new: "new = concat (map (\<lambda>k. page_requests ''https://git.example.com'' ''tok123''
        two_pages_mreqs k (two_pages_items k)) [1..<Suc 2])"
    by blast
  have ids: "Id' (mock_project 1 ''group/one'') = 1" "Id' (mock_project 2 ''group/two'') = 2"
    "Id' (mock_project 3 ''group/sub/three'') = 3"
    by (simp_all add: mock_project_def)
  have res: "concat (map (\<lambda>k. enriched two_pages_mrs (two_pages_items k)) [1..<Suc 2]) =
      [SetMergeRequests (mock_project 1 ''group/one'')
                  [mock_merge_request ''a'', mock_merge_request ''b'', mock_merge_request ''c''],
                SetMergeRequests (mock_project 2 ''group/two'') [],
                SetMergeRequests (mock_project 3 ''group/sub/three'')
                  [mock_merge_request ''d'', mock_merge_request ''e'']]"
    unfolding up by (simp add: enriched_def two_pages_items_def two_pages_mrs_def ids)
  have tr: "new =
           [''https://git.example.com/api/v4/projects?private_token=tok123&per_page=100&statistics=1&page=1'',
            ''https://git.example.com/api/v4/projects/1/merge_requests?private_token=tok123&per_page=100&statistics=1&page=1'',
            ''https://git.example.com/api/v4/projects/2/merge_requests?private_token=tok123&per_page=100&statistics=1&page=1'',
            ''https://git.example.com/api/v4/projects?private_token=tok123&per_page=100&statistics=1&page=2'',
            ''https://git.example.com/api/v4/projects/3/merge_requests?private_token=tok123&per_page=100&statistics=1&page=1'',
            ''https://git.example.com/api/v4/projects/3/merge_requests?private_token=tok123&per_page=100&statistics=1&page=2'']"
    unfolding new up
    by (simp add: page_requests_def two_pages_items_def two_pages_mreqs_def ids url_eval)
  from run show ?thesis unfolding res tr by simp
qed

section \<open>Nested fetch of merge requests\<close>

lemma attach_two:
  assumes "fetches env gitlabUrl token p1 mrs1 new1"
    and "fetches env gitlabUrl token p2 mrs2 new2"
  shows "attach_loop env gitlabUrl token 0 [p1, p2] reqs =
         Some (Inr [SetMergeRequests p1 mrs1, SetMergeRequests p2 mrs2], reqs @ new1 @ new2)"
proof -
  have "attach_loop env gitlabUrl token 0 [p1, p2] reqs =
        attach_loop env gitlabUrl token (Suc 0) [SetMergeRequests p1 mrs1, p2] (reqs @ new1)"
    using assms(1) by (subst attach_loop.simps) (simp add: fetches_def)
  also have "\<dots> = attach_loop env gitlabUrl token (Suc (Suc 0))
                      [SetMergeRequests p1 mrs1, SetMergeRequests p2 mrs2] ((reqs @ new1) @ new2)"
    using assms(2) by (subst attach_loop.simps) (simp add: fetches_def)
  also have "\<dots> = Some (Inr [SetMergeRequests p1 mrs1, SetMergeRequests p2 mrs2], (reqs @ new1) @ new2)"
    by (subst attach_loop.simps) simp
  finally show ?thesis by simp
qed

text \<open>
  C4. One page of projects holds two projects; the merge-request fetch yields three
  items for the first and none for the second. When the page carries the empty signal,
  the fetcher returns exactly these two projects, the first with the three merge
  requests in page order and the second with none, after requesting the page and then
  the merge requests of each project. When the page carries a signal that reads as a
  page index instead, the loop moves on to that page with both projects already
  enriched in its accumulator and both merge-request fetches already made.
\<close>

theorem nested_merge_requests_attached:
  assumes "mocked_page (http_Get env) (decode_Projects env) (projectsUrl gitlabUrl token 1)
             [p1, p2] signal"
    and "mocked_page (http_Get env) (decode_MergeRequests env)
           (mergesUrl gitlabUrl (Id' p1) token 1) [m1, m2, m3] ''''"
    and "mocked_page (http_Get env) (decode_MergeRequests env)
           (mergesUrl gitlabUrl (Id' p2) token 1) [] ''''"
  shows "(signal = '''' \<longrightarrow>
           GetRepositories env gitlabUrl token reqs =
             Some (Inr [SetMergeRequests p1 [m1, m2, m3], SetMergeRequests p2 []],
                   reqs @ [projectsUrl gitlabUrl token 1, mergesUrl gitlabUrl (Id' p1) token 1,
                           mergesUrl gitlabUrl (Id' p2) token 1]))
         \<and> (\<forall>n. Atoi signal = Inr n \<longrightarrow>
               GetRepositories env gitlabUrl token reqs =
                 GetRepositories_loop env gitlabUrl token n
                   [SetMergeRequests p1 [m1, m2, m3], SetMergeRequests p2 []]
                   (reqs @ [projectsUrl gitlabUrl token 1, mergesUrl gitlabUrl (Id' p1) token 1,
                            mergesUrl gitlabUrl (Id' p2) token 1]))
         \<and> length [SetMergeRequests p1 [m1, m2, m3], SetMergeRequests p2 []] = 2
         \<and> MergeRequests (SetMergeRequests p1 [m1, m2, m3]) = [m1, m2, m3]
         \<and> length (MergeRequests (SetMergeRequests p1 [m1, m2, m3])) = 3
         \<and> length (MergeRequests (SetMergeRequests p2 [])) = 0"
proof -
  note att = attach_two[OF fetches_one_page[OF assms(2)] fetches_one_page[OF assms(3)],
      of "reqs @ [projectsUrl gitlabUrl token 1]"]
  have fin: "GetRepositories env gitlabUrl token reqs =
             Some (Inr [SetMergeRequests p1 [m1, m2, m3], SetMergeRequests p2 []],
                   reqs @ [projectsUrl gitlabUrl token 1, mergesUrl gitlabUrl (Id' p1) token 1,
                           mergesUrl gitlabUrl (Id' p2) token 1])"
    if "signal = ''''"
    using Repo_page_done[OF assms(1)[unfolded that] att, of "[]"]
    by (simp add: GetRepositories_def)
  have cont: "GetRepositories env gitlabUrl token reqs =
                 GetRepositories_loop env gitlabUrl token n
                   [SetMergeRequests p1 [m1, m2, m3], SetMergeRequests p2 []]
                   (reqs @ [projectsUrl gitlabUrl token 1, mergesUrl gitlabUrl (Id' p1) token 1,
                            mergesUrl gitlabUrl (Id' p2) token 1])"
    if "Atoi signal = Inr n" for n
    using Repo_page_continue[OF assms(1) att that, of "[]"]
    by (simp add: GetRepositories_def)
  from fin cont show ?thesis by simp
qed

lemma one_page_p1:
  "mocked_page (http_Get (mock_env one_page)) (decode_Projects (mock_env one_page))
     (projectsUrl ''https://git.example.com'' ''tok123'' 1)
     [mock_project 1 ''group/one'', mock_project 2 ''group/two''] ''''"
  by (simp add: mock_eval one_page_def url_eval)

lemma one_page_m1:
  "mocked_page (http_Get (mock_env one_page)) (decode_MergeRequests (mock_env one_page))
     (mergesUrl ''https://git.example.com'' (Id' (mock_project 1 ''group/one'')) ''tok123'' 1)
     [mock_merge_request ''a'', mock_merge_request ''b'', mock_merge_request ''c''] ''''"
  by (simp add: mock_eval one_page_def url_eval)

lemma one_page_m2:
  "mocked_page (http_Get (mock_env one_page)) (decode_MergeRequests (mock_env one_page))
     (mergesUrl ''https://git.example.com'' (Id' (mock_project 2 ''group/two'')) ''tok123'' 1) [] ''''"
  by (simp add: mock_eval one_page_def url_eval)

lemma mock_urls:
  "projectsUrl ''https://git.example.com'' ''tok123'' 1 =
     ''https://git.example.com/api/v4/projects?private_token=tok123&per_page=100&statistics=1&page=1''"
  "mergesUrl ''https://git.example.com'' (Id' (mock_project 1 ''group/one'')) ''tok123'' 1 =
     ''https://git.example.com/api/v4/projects/1/merge_requests?private_token=tok123&per_page=100&statistics=1&page=1''"
  "mergesUrl ''https://git.example.com'' (Id' (mock_project 2 ''group/two'')) ''tok123'' 1 =
     ''https://git.example.com/api/v4/projects/2/merge_requests?private_token=tok123&per_page=100&statistics=1&page=1''"
  "mergesUrl ''https://git.example.com'' (Id' (mock_project 3 ''group/sub/three'')) ''tok123'' 1 =
     ''https://git.example.com/api/v4/projects/3/merge_requests?private_token=tok123&per_page=100&statistics=1&page=1''"
  by (simp_all add: url_eval mock_project_def)

theorem nested_merge_requests_attached_witness:
  "GetRepositories (mock_env one_page) ''https://git.example.com'' ''tok123'' [] =
     Some (Inr [SetMergeRequests (mock_project 1 ''group/one'')
                  [mock_merge_request ''a'', mock_merge_request ''b'', mock_merge_request ''c''],
                SetMergeRequests (mock_project 2 ''group/two'') []],
           [''https://git.example.com/api/v4/projects?private_token=tok123&per_page=100&statistics=1&page=1'',
            ''https://git.example.com/api/v4/projects/1/merge_requests?private_token=tok123&per_page=100&statistics=1&page=1'',
            ''https://git.example.com/api/v4/projects/2/merge_requests?private_token=tok123&per_page=100&statistics=1&page=1''])"
proof -
  from nested_merge_requests_attached[OF one_page_p1 one_page_m1 one_page_m2, of "[]"]
  have "GetRepositories (mock_env one_page) ''https://git.example.com'' ''tok123'' [] =
     Some (Inr [SetMergeRequests (mock_project 1 ''group/one'')
                  [mock_merge_request ''a'', mock_merge_request ''b'', mock_merge_request ''c''],
                SetMergeRequests (mock_project 2 ''group/two'') []],
           [] @ [projectsUrl ''https://git.example.com'' ''tok123'' 1,
            mergesUrl ''https://git.example.com'' (Id' (mock_project 1 ''group/one'')) ''tok123'' 1,
            mergesUrl ''https://git.example.com'' (Id' (mock_project 2 ''group/two'')) ''tok123'' 1])"
    by blast
  then show ?thesis unfolding mock_urls by simp
qed

section \<open>Signals that are not page indices\<close>

lemma attach_none [simp]:
  "attach_loop env gitlabUrl token 0 [] reqs = Some (Inr [], reqs)"
  by (subst attach_loop.simps) simp

lemma Repo_first_request:
  assumes "GetRepositories_loop env gitlabUrl token page projects reqs = Some (r, reqs')"
  shows "\<exists>rest. reqs' = reqs @ projectsUrl gitlabUrl token page # rest"
  using Repo_loop_Some[OF assms] by (auto simp: repo_post_def)

lemma MR_first_request:
  assumes "GetMergeRequests_loop env gitlabUrl token project page merge_requests reqs = Some (r, reqs')"
  shows "\<exists>rest. reqs' = reqs @ mergesUrl gitlabUrl (Id' project) token page # rest"
  using MR_loop_Some[OF assms] by (auto simp: MR_post_def)

text \<open>
  C3. When the fetch reaches a page whose continuation signal is present, not empty and
  not an integer for \<open>strconv.Atoi\<close> (pages 1 to \<open>N - 1\<close> having led to it), the result
  is the fatal error that reports the parse failure: the sequence accumulated so far is
  not returned. This holds for the project fetcher and for the merge-request fetcher.
\<close>

theorem malformed_signal_is_fatal:
  assumes "pageHeader \<noteq> ''''" and "Atoi pageHeader = Inl e" and "1 \<le> N"
  shows "(chained_pages (http_Get env) (decode_Projects env) (projectsUrl gitlabUrl token)
            items signal N
          \<and> mocked_page (http_Get env) (decode_Projects env) (projectsUrl gitlabUrl token (int N))
              (items N) pageHeader
          \<and> (\<forall>k \<in> {1..N}. \<forall>p \<in> set (items k). fetches env gitlabUrl token p (mrs p) (mreqs p))
          \<longrightarrow> GetRepositories env gitlabUrl token reqs =
                Some (Inl (Fatal_Atoi e),
                      reqs @ concat (map (\<lambda>k. page_requests gitlabUrl token mreqs k (items k))
                                      [1..<Suc N])))
         \<and> (chained_pages (http_Get env) (decode_MergeRequests env)
               (mergesUrl gitlabUrl (Id' project) token) mitems signal N
             \<and> mocked_page (http_Get env) (decode_MergeRequests env)
                 (mergesUrl gitlabUrl (Id' project) token (int N)) (mitems N) pageHeader
             \<longrightarrow> GetMergeRequests env project gitlabUrl token reqs =
                   Some (Inl (Fatal_Atoi e),
                         reqs @ map (\<lambda>k. mergesUrl gitlabUrl (Id' project) token (int k))
                                  [1..<Suc N]))"
proof (intro conjI impI; elim conjE)
  assume ch: "chained_pages (http_Get env) (decode_Projects env) (projectsUrl gitlabUrl token)
            items signal N"
    and la: "mocked_page (http_Get env) (decode_Projects env) (projectsUrl gitlabUrl token (int N))
              (items N) pageHeader"
    and fe: "\<forall>k \<in> {1..N}. \<forall>p \<in> set (items k). fetches env gitlabUrl token p (mrs p) (mreqs p)"
  have "GetRepositories env gitlabUrl token reqs =
        GetRepositories_loop env gitlabUrl token (int 1) [] reqs"
    by (simp add: GetRepositories_def)
  also have "\<dots> = GetRepositories_loop env gitlabUrl token (int N)
           ([] @ concat (map (\<lambda>k. enriched mrs (items k)) [1..<N]))
           (reqs @ concat (map (\<lambda>k. page_requests gitlabUrl token mreqs k (items k)) [1..<N]))"
    by (rule Repo_reach[OF ch fe _ assms(3)]) simp
  also have "\<dots> = Some (Inl (Fatal_Atoi e),
                       (reqs @ concat (map (\<lambda>k. page_requests gitlabUrl token mreqs k (items k)) [1..<N]))
                         @ page_requests gitlabUrl token mreqs N (items N))"
    by (rule Repo_page_bad[OF la attach_page[OF fe assms(3) order_refl] assms(1,2)])
  finally show "GetRepositories env gitlabUrl token reqs =
                Some (Inl (Fatal_Atoi e),
                      reqs @ concat (map (\<lambda>k. page_requests gitlabUrl token mreqs k (items k))
                                      [1..<Suc N]))"
    using assms(3) by simp
next
  assume ch: "chained_pages (http_Get env) (decode_MergeRequests env)
               (mergesUrl gitlabUrl (Id' project) token) mitems signal N"
    and la: "mocked_page (http_Get env) (decode_MergeRequests env)
                 (mergesUrl gitlabUrl (Id' project) token (int N)) (mitems N) pageHeader"
  have "GetMergeRequests env project gitlabUrl token reqs =
        GetMergeRequests_loop env gitlabUrl token project (int 1) [] reqs"
    by (simp add: GetMergeRequests_def)
  also have "\<dots> = GetMergeRequests_loop env gitlabUrl token project (int N)
           ([] @ concat (map mitems [1..<N]))
           (reqs @ map (\<lambda>k. mergesUrl gitlabUrl (Id' project) token (int k)) [1..<N])"
    by (rule MR_reach[OF ch _ assms(3)]) simp
  also have "\<dots> = Some (Inl (Fatal_Atoi e),
             (reqs @ map (\<lambda>k. mergesUrl gitlabUrl (Id' project) token (int k)) [1..<N])
               @ [mergesUrl gitlabUrl (Id' project) token (int N)])"
    by (rule MR_page_bad[OF la assms(1,2)])
  finally show "GetMergeRequests env project gitlabUrl token reqs =
                   Some (Inl (Fatal_Atoi e),
                         reqs @ map (\<lambda>k. mergesUrl gitlabUrl (Id' project) token (int k))
                                  [1..<Suc N])"
    using assms(3) by simp
qed

lemma Atoi_abc: "Atoi ''abc'' = Inl ErrSyntax"
  by (simp add: Atoi_eval)

lemma Atoi_0: "Atoi ''0'' = Inr 0"
  by (simp add: Atoi_eval)

lemma Atoi_minus_1: "Atoi ''-1'' = Inr (- 1)"
  by (simp add: Atoi_eval)

lemma malformed_p1:
  "mocked_page (http_Get (mock_env malformed)) (decode_Projects (mock_env malformed))
     (projectsUrl ''https://git.example.com'' ''tok123'' (int 1)) (two_pages_items 1) ''abc''"
  by (simp add: mock_eval malformed_def url_eval two_pages_items_def)

lemma malformed_m3:
  "mocked_page (http_Get (mock_env malformed)) (decode_MergeRequests (mock_env malformed))
     (mergesUrl ''https://git.example.com'' (Id' (mock_project 3 ''group/sub/three'')) ''tok123'' (int 1))
     [mock_merge_request ''d''] ''abc''"
  by (simp add: mock_eval malformed_def url_eval)

lemma malformed_fetches:
  "\<forall>k \<in> {1..1}. \<forall>p \<in> set (two_pages_items k).
     fetches (mock_env malformed) ''https://git.example.com'' ''tok123'' p
       (two_pages_mrs p) (two_pages_mreqs p)"
proof (intro ballI)
  fix k :: nat and p assume "k \<in> {1..1}" and p: "p \<in> set (two_pages_items k)"
  then have "k = 1" by auto
  with p consider "p = mock_project 1 ''group/one''" | "p = mock_project 2 ''group/two''"
    by (auto simp: two_pages_items_def)
  then show "fetches (mock_env malformed) ''https://git.example.com'' ''tok123'' p
       (two_pages_mrs p) (two_pages_mreqs p)"
  proof cases
    case 1
    have id: "Id' p = 1" by (simp add: 1 mock_project_def)
    have "mocked_page (http_Get (mock_env malformed)) (decode_MergeRequests (mock_env malformed))
        (mergesUrl ''https://git.example.com'' (Id' p) ''tok123'' 1)
        [mock_merge_request ''a'', mock_merge_request ''b'', mock_merge_request ''c''] ''''"
      unfolding id by (simp add: mock_eval malformed_def url_eval)
    from fetches_one_page[OF this] show ?thesis
      by (simp add: two_pages_mrs_def two_pages_mreqs_def id)
  next
    case 2
    have id: "Id' p = 2" by (simp add: 2 mock_project_def)
    have "mocked_page (http_Get (mock_env malformed)) (decode_MergeRequests (mock_env malformed))
        (mergesUrl ''https://git.example.com'' (Id' p) ''tok123'' 1) [] ''''"
      unfolding id by (simp add: mock_eval malformed_def url_eval)
    from fetches_one_page[OF this] show ?thesis
      by (simp add: two_pages_mrs_def two_pages_mreqs_def id)
  qed
qed

theorem malformed_signal_is_fatal_witness:
  "Atoi ''abc'' = Inl ErrSyntax
   \<and> GetRepositories (mock_env malformed) ''https://git.example.com'' ''tok123'' [] =
       Some (Inl (Fatal_Atoi ErrSyntax),
         [''https://git.example.com/api/v4/projects?private_token=tok123&per_page=100&statistics=1&page=1'',
          ''https://git.example.com/api/v4/projects/1/merge_requests?private_token=tok123&per_page=100&statistics=1&page=1'',
          ''https://git.example.com/api/v4/projects/2/merge_requests?private_token=tok123&per_page=100&statistics=1&page=1''])
   \<and> GetMergeRequests (mock_env malformed) (mock_project 3 ''group/sub/three'')
         ''https://git.example.com'' ''tok123'' [] =
       Some (Inl (Fatal_Atoi ErrSyntax),
         [''https://git.example.com/api/v4/projects/3/merge_requests?private_token=tok123&per_page=100&statistics=1&page=1''])"
proof -
  have ne: "''abc'' \<noteq> ''''" by simp
  have one: "(1::nat) \<le> 1" by simp
  have up: "[1..<Suc 1] = [1::nat]" by (simp add: upt_conv_Cons)
  have ch1: "chained_pages (http_Get (mock_env malformed)) (decode_Projects (mock_env malformed))
      (projectsUrl ''https://git.example.com'' ''tok123'') two_pages_items (\<lambda>k. ''2'') 1"
    by (simp add: chained_pages_def)
  have ch2: "chained_pages (http_Get (mock_env malformed)) (decode_MergeRequests (mock_env malformed))
      (mergesUrl ''https://git.example.com'' (Id' (mock_project 3 ''group/sub/three'')) ''tok123'')
      (\<lambda>k. [mock_merge_request ''d'']) (\<lambda>k. ''2'') 1"
    by (simp add: chained_pages_def)
  note inst = malformed_signal_is_fatal[OF ne Atoi_abc one,
      where env = "mock_env malformed" and gitlabUrl = "''https://git.example.com''"
        and token = "''tok123''" and items = two_pages_items and signal = "\<lambda>k. ''2''"
        and mrs = two_pages_mrs and mreqs = two_pages_mreqs and reqs = "[]"
        and project = "mock_project 3 ''group/sub/three''"
        and mitems = "\<lambda>k. [mock_merge_request ''d'']"]
  from inst ch1 malformed_p1 malformed_fetches
  have r1: "GetRepositories (mock_env malformed) ''https://git.example.com'' ''tok123'' [] =
        Some (Inl (Fatal_Atoi ErrSyntax),
          [] @ concat (map (\<lambda>k. page_requests ''https://git.example.com'' ''tok123''
                 two_pages_mreqs k (two_pages_items k)) [1..<Suc 1]))"
    by blast
  from inst ch2 malformed_m3
  have r2: "GetMergeRequests (mock_env malformed) (mock_project 3 ''group/sub/three'')
         ''https://git.example.com'' ''tok123'' [] =
        Some (Inl (Fatal_Atoi ErrSyntax),
          [] @ map (\<lambda>k. mergesUrl ''https://git.example.com''
                 (Id' (mock_project 3 ''group/sub/three'')) ''tok123'' (int k)) [1..<Suc 1])"
    by blast
  have ids: "Id' (mock_project 1 ''group/one'') = 1" "Id' (mock_project 2 ''group/two'') = 2"
    "Id' (mock_project 3 ''group/sub/three'') = 3"
    by (simp_all add: mock_project_def)
  have t1: "concat (map (\<lambda>k. page_requests ''https://git.example.com'' ''tok123''
                 two_pages_mreqs k (two_pages_items k)) [1..<Suc 1]) =
         [''https://git.example.com/api/v4/projects?private_token=tok123&per_page=100&statistics=1&page=1'',
          ''https://git.example.com/api/v4/projects/1/merge_requests?private_token=tok123&per_page=100&statistics=1&page=1'',
          ''https://git.example.com/api/v4/projects/2/merge_requests?private_token=tok123&per_page=100&statistics=1&page=1'']"
    unfolding up
    by (simp add: page_requests_def two_pages_items_def two_pages_mreqs_def ids url_eval)
  have t2: "map (\<lambda>k. mergesUrl ''https://git.example.com''
                 (Id' (mock_project 3 ''group/sub/three'')) ''tok123'' (int k)) [1..<Suc 1] =
         [''https://git.example.com/api/v4/projects/3/merge_requests?private_token=tok123&per_page=100&statistics=1&page=1'']"
    unfolding up by (simp add: ids url_eval)
  from r1 r2 Atoi_abc show ?thesis unfolding t1 t2 by simp
qed

section \<open>Signals that are integers, and signals that are missing\<close>

lemma zero_signal_pages:
  "mocked_page (http_Get (mock_env zero_signal)) (decode_Projects (mock_env zero_signal))
     (projectsUrl ''https://git.example.com'' ''tok123'' 1) [] ''0''"
  "mocked_page (http_Get (mock_env zero_signal)) (decode_Projects (mock_env zero_signal))
     (projectsUrl ''https://git.example.com'' ''tok123'' 0) [] ''-1''"
  "mocked_page (http_Get (mock_env zero_signal)) (decode_Projects (mock_env zero_signal))
     (projectsUrl ''https://git.example.com'' ''tok123'' (- 1)) [] ''''"
  by (simp_all add: mock_eval zero_signal_def url_eval)

lemma zero_signal_urls:
  "projectsUrl ''https://git.example.com'' ''tok123'' 1 =
     ''https://git.example.com/api/v4/projects?private_token=tok123&per_page=100&statistics=1&page=1''"
  "projectsUrl ''https://git.example.com'' ''tok123'' 0 =
     ''https://git.example.com/api/v4/projects?private_token=tok123&per_page=100&statistics=1&page=0''"
  "projectsUrl ''https://git.example.com'' ''tok123'' (- 1) =
     ''https://git.example.com/api/v4/projects?private_token=tok123&per_page=100&statistics=1&page=-1''"
  by (simp_all add: url_eval)

text \<open>
  C5, as the code has it. Whenever the continuation signal of a response is read by
  \<open>strconv.Atoi\<close> as an integer \<open>n\<close>, of any sign, the loop continues with page \<open>n\<close>:
  the next request it issues is the one for page index \<open>n\<close>. No test on the sign of
  \<open>n\<close> is made. This holds for the project fetcher and for the merge-request fetcher.
\<close>

theorem signal_value_is_next_page:
  assumes "Atoi pageHeader = Inr n"
  shows "(mocked_page (http_Get env) (decode_Projects env) (projectsUrl gitlabUrl token page)
            projectsInPage pageHeader
          \<and> attach_loop env gitlabUrl token 0 projectsInPage
               (reqs @ [projectsUrl gitlabUrl token page]) = Some (Inr ps', attached)
          \<longrightarrow> GetRepositories_loop env gitlabUrl token page projects reqs =
                GetRepositories_loop env gitlabUrl token n (projects @ ps') attached
              \<and> (\<forall>r reqs'. GetRepositories_loop env gitlabUrl token page projects reqs = Some (r, reqs')
                   \<longrightarrow> (\<exists>rest. reqs' = attached @ projectsUrl gitlabUrl token n # rest)))
         \<and> (mocked_page (http_Get env) (decode_MergeRequests env)
               (mergesUrl gitlabUrl (Id' project) token page) mergesInPage pageHeader
             \<longrightarrow> GetMergeRequests_loop env gitlabUrl token project page merge_requests reqs =
                   GetMergeRequests_loop env gitlabUrl token project n (merge_requests @ mergesInPage)
                     (reqs @ [mergesUrl gitlabUrl (Id' project) token page])
                 \<and> (\<forall>r reqs'. GetMergeRequests_loop env gitlabUrl token project page merge_requests reqs
                        = Some (r, reqs')
                      \<longrightarrow> (\<exists>rest. reqs' = (reqs @ [mergesUrl gitlabUrl (Id' project) token page])
                              @ mergesUrl gitlabUrl (Id' project) token n # rest)))"
proof (intro conjI impI allI; (elim conjE)?)
  assume pg: "mocked_page (http_Get env) (decode_Projects env) (projectsUrl gitlabUrl token page)
            projectsInPage pageHeader"
    and att: "attach_loop env gitlabUrl token 0 projectsInPage
               (reqs @ [projectsUrl gitlabUrl token page]) = Some (Inr ps', attached)"
  show eq: "GetRepositories_loop env gitlabUrl token page projects reqs =
        GetRepositories_loop env gitlabUrl token n (projects @ ps') attached"
    by (rule Repo_page_continue[OF pg att assms])
  show "\<exists>rest. reqs' = attached @ projectsUrl gitlabUrl token n # rest"
    if "GetRepositories_loop env gitlabUrl token page projects reqs = Some (r, reqs')" for r reqs'
    using that unfolding eq by (rule Repo_first_request)
next
  assume pg: "mocked_page (http_Get env) (decode_MergeRequests env)
               (mergesUrl gitlabUrl (Id' project) token page) mergesInPage pageHeader"
  show eq: "GetMergeRequests_loop env gitlabUrl token project page merge_requests reqs =
        GetMergeRequests_loop env gitlabUrl token project n (merge_requests @ mergesInPage)
          (reqs @ [mergesUrl gitlabUrl (Id' project) token page])"
    by (rule MR_page_continue[OF pg assms])
  show "\<exists>rest. reqs' = (reqs @ [mergesUrl gitlabUrl (Id' project) token page])
                              @ mergesUrl gitlabUrl (Id' project) token n # rest"
    if "GetMergeRequests_loop env gitlabUrl token project page merge_requests reqs = Some (r, reqs')"
    for r reqs'
    using that unfolding eq by (rule MR_first_request)
qed

theorem signal_value_is_next_page_witness:
  "Atoi ''0'' = Inr 0
   \<and> GetRepositories_loop (mock_env zero_signal) ''https://git.example.com'' ''tok123'' 1 [] [] =
       GetRepositories_loop (mock_env zero_signal) ''https://git.example.com'' ''tok123'' 0 []
         [''https://git.example.com/api/v4/projects?private_token=tok123&per_page=100&statistics=1&page=1'']"
proof -
  have att: "attach_loop (mock_env zero_signal) ''https://git.example.com'' ''tok123'' 0 []
      ([] @ [projectsUrl ''https://git.example.com'' ''tok123'' 1]) =
      Some (Inr [], [projectsUrl ''https://git.example.com'' ''tok123'' 1])"
    by simp
  from signal_value_is_next_page[OF Atoi_0, where env = "mock_env zero_signal"
      and gitlabUrl = "''https://git.example.com''" and token = "''tok123''" and page = 1
      and projectsInPage = "[]" and reqs = "[]" and ps' = "[]"
      and attached = "[projectsUrl ''https://git.example.com'' ''tok123'' 1]" and projects = "[]"]
    zero_signal_pages(1) att
  have "GetRepositories_loop (mock_env zero_signal) ''https://git.example.com'' ''tok123'' 1 [] [] =
       GetRepositories_loop (mock_env zero_signal) ''https://git.example.com'' ''tok123'' 0 ([] @ [])
         [projectsUrl ''https://git.example.com'' ''tok123'' 1]"
    by blast
  with Atoi_0 show ?thesis unfolding zero_signal_urls by simp
qed

text \<open>
  C5 as stated fails: the signals \<open>0\<close> and \<open>-1\<close> parse, are not positive, and are
  taken as page indices all the same. Here the upstream answers page 1 with the signal
  \<open>0\<close>, page 0 with \<open>-1\<close> and page -1 with the empty signal.
\<close>

theorem nonpositive_signal_accepted:
  "Atoi ''0'' = Inr 0 \<and> Atoi ''-1'' = Inr (- 1)
   \<and> GetRepositories (mock_env zero_signal) ''https://git.example.com'' ''tok123'' [] =
       Some (Inr [],
         [''https://git.example.com/api/v4/projects?private_token=tok123&per_page=100&statistics=1&page=1'',
          ''https://git.example.com/api/v4/projects?private_token=tok123&per_page=100&statistics=1&page=0'',
          ''https://git.example.com/api/v4/projects?private_token=tok123&per_page=100&statistics=1&page=-1''])"
proof -
  let ?env = "mock_env zero_signal" and ?g = "''https://git.example.com''" and ?t = "''tok123''"
  have "GetRepositories ?env ?g ?t [] = GetRepositories_loop ?env ?g ?t 1 [] []"
    by (simp add: GetRepositories_def)
  also have "\<dots> = GetRepositories_loop ?env ?g ?t 0 ([] @ []) ([] @ [projectsUrl ?g ?t 1])"
    by (rule Repo_page_continue[OF zero_signal_pages(1) attach_none Atoi_0])
  also have "\<dots> = GetRepositories_loop ?env ?g ?t (- 1) (([] @ []) @ [])
                     (([] @ [projectsUrl ?g ?t 1]) @ [projectsUrl ?g ?t 0])"
    by (rule Repo_page_continue[OF zero_signal_pages(2) attach_none Atoi_minus_1])
  also have "\<dots> = Some (Inr ((([] @ []) @ []) @ []),
                     (([] @ [projectsUrl ?g ?t 1]) @ [projectsUrl ?g ?t 0]) @ [projectsUrl ?g ?t (- 1)])"
    by (rule Repo_page_done[OF zero_signal_pages(3) attach_none])
  finally show ?thesis using Atoi_0 Atoi_minus_1 unfolding zero_signal_urls by simp
qed

text \<open>
  C2, where the code departs from it. A response that decodes but carries no
  \<open>X-Next-Page\<close> header makes the fetch end in the run-time panic of indexing an empty
  slice, in the project fetcher and in the merge-request fetcher alike; nothing is
  returned.
\<close>

theorem absent_signal_panics:
  "GetRepositories (mock_env absent_header) ''https://git.example.com'' ''tok123'' [] =
     Some (Inl Panic_index_out_of_range,
       [''https://git.example.com/api/v4/projects?private_token=tok123&per_page=100&statistics=1&page=1''])
   \<and> GetMergeRequests (mock_env absent_header) (mock_project 3 ''group/sub/three'')
         ''https://git.example.com'' ''tok123'' [] =
     Some (Inl Panic_index_out_of_range,
       [''https://git.example.com/api/v4/projects/3/merge_requests?private_token=tok123&per_page=100&statistics=1&page=1''])"
proof -
  let ?env = "mock_env absent_header" and ?g = "''https://git.example.com''" and ?t = "''tok123''"
  have g1: "http_Get ?env (projectsUrl ?g ?t 1) = Inr \<lparr>Header = Map.empty, Body = ''[]''\<rparr>"
    by (simp add: mock_env_def absent_header_def url_eval)
  have d1: "decode_Projects ?env (Body \<lparr>Header = Map.empty, Body = ''[]''\<rparr>) = Inr []"
    by (simp add: mock_env_def mock_decode_Projects_def)
  have h1: "Header \<lparr>Header = Map.empty, Body = ''[]''\<rparr> ''X-Next-Page'' = None"
    by simp
  have g2: "http_Get ?env (mergesUrl ?g (Id' (mock_project 3 ''group/sub/three'')) ?t 1) =
      Inr \<lparr>Header = Map.empty, Body = ''[d]''\<rparr>"
    by (simp add: mock_env_def absent_header_def url_eval mock_project_def)
  have d2: "decode_MergeRequests ?env (Body \<lparr>Header = Map.empty, Body = ''[d]''\<rparr>) =
      Inr [mock_merge_request ''d'']"
    by (simp add: mock_env_def mock_decode_MergeRequests_def)
  have h2: "Header \<lparr>Header = Map.empty, Body = ''[d]''\<rparr> ''X-Next-Page'' = None"
    by simp
  have "GetRepositories ?env ?g ?t [] = Some (Inl Panic_index_out_of_range, [] @ [projectsUrl ?g ?t 1])"
    unfolding GetRepositories_def by (rule Repo_absent[OF g1 d1 attach_none h1])
  moreover have "GetMergeRequests ?env (mock_project 3 ''group/sub/three'') ?g ?t [] =
      Some (Inl Panic_index_out_of_range,
            [] @ [mergesUrl ?g (Id' (mock_project 3 ''group/sub/three'')) ?t 1])"
    unfolding GetMergeRequests_def by (rule MR_absent[OF g2 d2 h2])
  ultimately show ?thesis unfolding zero_signal_urls mock_urls by simp
qed

section \<open>No partial collection, and the frame of the merge-request fetcher\<close>

lemma GetMergeRequests_result_independent:
  assumes "Id' project2 = Id' project"
  shows "map_option fst (GetMergeRequests env project2 gitlabUrl token reqs2) =
         map_option fst (GetMergeRequests env project gitlabUrl token reqs)"
proof (cases "GetMergeRequests env project gitlabUrl token reqs")
  case None
  from GetMergeRequests_None[OF None assms] show ?thesis by (simp add: None)
next
  case (Some y)
  obtain r reqs' where y: "y = (r, reqs')" by (cases y)
  from GetMergeRequests_Some[OF Some[unfolded y]] obtain new where
    "MR_post env gitlabUrl token (Id' project) 1 r new" by blast
  from MR_post_GetMergeRequests[OF this assms, of reqs2] show ?thesis
    by (simp add: Some y)
qed

lemma one_page_run:
  "GetRepositories (mock_env one_page) ''https://git.example.com'' ''tok123'' [] =
     Some (Inr [SetMergeRequests (mock_project 1 ''group/one'')
                  [mock_merge_request ''a'', mock_merge_request ''b'', mock_merge_request ''c''],
                SetMergeRequests (mock_project 2 ''group/two'') []],
           [projectsUrl ''https://git.example.com'' ''tok123'' 1,
            mergesUrl ''https://git.example.com'' (Id' (mock_project 1 ''group/one'')) ''tok123'' 1,
            mergesUrl ''https://git.example.com'' (Id' (mock_project 2 ''group/two'')) ''tok123'' 1])"
proof -
  note att = attach_two[OF fetches_one_page[OF one_page_m1] fetches_one_page[OF one_page_m2],
      of "[] @ [projectsUrl ''https://git.example.com'' ''tok123'' 1]"]
  from Repo_page_done[OF one_page_p1 att, of "[]"] show ?thesis
    by (simp add: GetRepositories_def)
qed

text \<open>
  C8. Whenever the fetch pipeline returns a collection, every project in it carries
  exactly the sequence the merge-request fetcher returns for that project, and every
  request made during the poll was answered with no transport error, a body that
  decodes, and a continuation signal that is present and either empty or an integer.
  Hence a run in which any request fails in one of these ways returns no collection.
\<close>

theorem no_partial_collection:
  "(\<forall>projects reqs'.
      GetRepositories env gitlabUrl token reqs = Some (Inr projects, reqs') \<longrightarrow>
        (\<forall>p \<in> set projects. complete env gitlabUrl token p)
        \<and> (\<exists>new. reqs' = reqs @ new \<and> (\<forall>u \<in> set new. request_answered env gitlabUrl token u)))
   \<and> (\<forall>r reqs'.
        GetRepositories env gitlabUrl token reqs = Some (r, reqs') \<longrightarrow>
          (\<exists>new. reqs' = reqs @ new
             \<and> ((\<exists>u \<in> set new. \<not> request_answered env gitlabUrl token u) \<longrightarrow> (\<exists>e. r = Inl e))))"
proof (intro conjI allI impI)
  fix projects reqs'
  assume run: "GetRepositories env gitlabUrl token reqs = Some (Inr projects, reqs')"
  from Repo_loop_Some[OF run[unfolded GetRepositories_def]] obtain res new where
    eq: "(Inr projects, reqs') = (extend [] res, reqs @ new)"
    and post: "repo_post env gitlabUrl token 1 res new"
    by blast
  from eq have res: "res = Inr projects" and tr: "reqs' = reqs @ new" by simp_all
  from post res show "\<forall>p \<in> set projects. complete env gitlabUrl token p"
    by (simp add: repo_post_def)
  from post res have "\<forall>u \<in> set new. request_answered env gitlabUrl token u"
    by (simp add: repo_post_def)
  with tr show "\<exists>new. reqs' = reqs @ new \<and> (\<forall>u \<in> set new. request_answered env gitlabUrl token u)"
    by blast
next
  fix r reqs'
  assume run: "GetRepositories env gitlabUrl token reqs = Some (r, reqs')"
  from Repo_loop_Some[OF run[unfolded GetRepositories_def]] obtain res new where
    eq: "(r, reqs') = (extend [] res, reqs @ new)"
    and post: "repo_post env gitlabUrl token 1 res new"
    by blast
  from eq have res: "res = r" and tr: "reqs' = reqs @ new" by simp_all
  have "\<exists>e. r = Inl e" if "\<exists>u \<in> set new. \<not> request_answered env gitlabUrl token u"
  proof (cases r)
    case (Inl e)
    then show ?thesis by blast
  next
    case (Inr ps)
    with post res have "\<forall>u \<in> set new. request_answered env gitlabUrl token u"
      by (simp add: repo_post_def)
    with that show ?thesis by blast
  qed
  with tr show "\<exists>new. reqs' = reqs @ new
             \<and> ((\<exists>u \<in> set new. \<not> request_answered env gitlabUrl token u) \<longrightarrow> (\<exists>e. r = Inl e))"
    by blast
qed

theorem no_partial_collection_witness:
  "complete (mock_env one_page) ''https://git.example.com'' ''tok123''
     (SetMergeRequests (mock_project 1 ''group/one'')
        [mock_merge_request ''a'', mock_merge_request ''b'', mock_merge_request ''c''])
   \<and> complete (mock_env one_page) ''https://git.example.com'' ''tok123''
       (SetMergeRequests (mock_project 2 ''group/two'') [])
   \<and> request_answered (mock_env one_page) ''https://git.example.com'' ''tok123''
       (projectsUrl ''https://git.example.com'' ''tok123'' 1)
   \<and> request_answered (mock_env one_page) ''https://git.example.com'' ''tok123''
       (mergesUrl ''https://git.example.com'' (Id' (mock_project 2 ''group/two'')) ''tok123'' 1)"
proof -
  from no_partial_collection[of "mock_env one_page" "''https://git.example.com''" "''tok123''" "[]"]
    one_page_run
  have com: "\<forall>p \<in> set [SetMergeRequests (mock_project 1 ''group/one'')
                  [mock_merge_request ''a'', mock_merge_request ''b'', mock_merge_request ''c''],
                SetMergeRequests (mock_project 2 ''group/two'') []].
            complete (mock_env one_page) ''https://git.example.com'' ''tok123'' p"
    and "\<exists>new. [projectsUrl ''https://git.example.com'' ''tok123'' 1,
            mergesUrl ''https://git.example.com'' (Id' (mock_project 1 ''group/one'')) ''tok123'' 1,
            mergesUrl ''https://git.example.com'' (Id' (mock_project 2 ''group/two'')) ''tok123'' 1]
          = [] @ new
        \<and> (\<forall>u \<in> set new. request_answered (mock_env one_page) ''https://git.example.com'' ''tok123'' u)"
    by blast+
  then have "\<forall>u \<in> set [projectsUrl ''https://git.example.com'' ''tok123'' 1,
            mergesUrl ''https://git.example.com'' (Id' (mock_project 1 ''group/one'')) ''tok123'' 1,
            mergesUrl ''https://git.example.com'' (Id' (mock_project 2 ''group/two'')) ''tok123'' 1].
       request_answered (mock_env one_page) ''https://git.example.com'' ''tok123'' u"
    by auto
  with com show ?thesis by simp
qed

text \<open>
  C9. A call of the merge-request fetcher adds requests to the trace and changes nothing
  else: what it adds are requests to the merge-request endpoint of that project id; its
  result, and whether it returns at all, depend on the project only through its id and
  not on the requests made before, so a call for one project is not affected by an
  earlier call for another. It receives the project by value: after the loop over a
  page, each project is the decoded one with only its merge-request field set.
\<close>

theorem GetMergeRequests_frame:
  "(\<forall>r reqs'.
      GetMergeRequests env project gitlabUrl token reqs = Some (r, reqs') \<longrightarrow>
        (\<exists>new. reqs' = reqs @ new
           \<and> set new \<subseteq> range (mergesUrl gitlabUrl (Id' project) token)
           \<and> (\<forall>reqs2 (project2 :: Project). Id' project2 = Id' project \<longrightarrow>
                 GetMergeRequests env project2 gitlabUrl token reqs2 = Some (r, reqs2 @ new))))
   \<and> (GetMergeRequests env project gitlabUrl token reqs = None \<longrightarrow>
        (\<forall>reqs2 (project2 :: Project). Id' project2 = Id' project \<longrightarrow>
           GetMergeRequests env project2 gitlabUrl token reqs2 = None))
   \<and> (\<forall>other r reqs'.
        GetMergeRequests env project gitlabUrl token reqs = Some (r, reqs') \<longrightarrow>
          map_option fst (GetMergeRequests env other gitlabUrl token reqs') =
          map_option fst (GetMergeRequests env other gitlabUrl token reqs))
   \<and> (\<forall>ps ps' reqs'.
        attach_loop env gitlabUrl token 0 ps reqs = Some (Inr ps', reqs') \<longrightarrow>
          length ps' = length ps
          \<and> (\<forall>j < length ps. ps' ! j = SetMergeRequests (ps ! j) (MergeRequests (ps' ! j))))"
proof (intro conjI allI impI)
  fix r reqs'
  assume run: "GetMergeRequests env project gitlabUrl token reqs = Some (r, reqs')"
  from GetMergeRequests_Some[OF run] obtain new where
    tr: "reqs' = reqs @ new" and post: "MR_post env gitlabUrl token (Id' project) 1 r new"
    by blast
  have "set new \<subseteq> range (mergesUrl gitlabUrl (Id' project) token)"
    using post by (simp add: MR_post_def)
  moreover have "\<forall>reqs2 (project2 :: Project). Id' project2 = Id' project \<longrightarrow>
      GetMergeRequests env project2 gitlabUrl token reqs2 = Some (r, reqs2 @ new)"
    using MR_post_GetMergeRequests[OF post] by blast
  ultimately show "\<exists>new. reqs' = reqs @ new
           \<and> set new \<subseteq> range (mergesUrl gitlabUrl (Id' project) token)
           \<and> (\<forall>reqs2 (project2 :: Project). Id' project2 = Id' project \<longrightarrow>
                 GetMergeRequests env project2 gitlabUrl token reqs2 = Some (r, reqs2 @ new))"
    using tr by blast
next
  fix reqs2 and project2 :: Project
  assume "GetMergeRequests env project gitlabUrl token reqs = None" "Id' project2 = Id' project"
  then show "GetMergeRequests env project2 gitlabUrl token reqs2 = None"
    by (rule GetMergeRequests_None)
next
  fix other r reqs'
  show "map_option fst (GetMergeRequests env other gitlabUrl token reqs') =
        map_option fst (GetMergeRequests env other gitlabUrl token reqs)"
    by (rule GetMergeRequests_result_independent) simp
next
  fix ps ps' reqs'
  assume "attach_loop env gitlabUrl token 0 ps reqs = Some (Inr ps', reqs')"
  from attach_loop_Some[OF this] obtain new where
    post: "attach_post env gitlabUrl token 0 ps (Inr ps') new" by blast
  then show "length ps' = length ps" by (simp add: attach_post_def)
  fix j assume "j < length ps"
  with post show "ps' ! j = SetMergeRequests (ps ! j) (MergeRequests (ps' ! j))"
    by (simp add: attach_post_def)
qed

theorem GetMergeRequests_frame_witness:
  "GetMergeRequests (mock_env two_pages) (mock_project 3 ''group/sub/three'')
     ''https://git.example.com'' ''tok123'' [] =
     Some (Inr [mock_merge_request ''d'', mock_merge_request ''e''],
           [mergesUrl ''https://git.example.com'' 3 ''tok123'' 1,
            mergesUrl ''https://git.example.com'' 3 ''tok123'' 2])
   \<and> GetMergeRequests (mock_env two_pages) (mock_project 3 ''renamed'')
       ''https://git.example.com'' ''tok123'' [''earlier''] =
     Some (Inr [mock_merge_request ''d'', mock_merge_request ''e''],
           [''earlier'',
            mergesUrl ''https://git.example.com'' 3 ''tok123'' 1,
            mergesUrl ''https://git.example.com'' 3 ''tok123'' 2])"
proof -
  have run: "GetMergeRequests (mock_env two_pages) (mock_project 3 ''group/sub/three'')
     ''https://git.example.com'' ''tok123'' [] =
     Some (Inr [mock_merge_request ''d'', mock_merge_request ''e''],
           [mergesUrl ''https://git.example.com'' 3 ''tok123'' 1,
            mergesUrl ''https://git.example.com'' 3 ''tok123'' 2])"
    using two_pages_fetches_3 by (simp add: fetches_def)
  have id: "Id' (mock_project 3 ''renamed'') = Id' (mock_project 3 ''group/sub/three'')"
    by (simp add: mock_project_def)
  from GetMergeRequests_frame[of "mock_env two_pages" "mock_project 3 ''group/sub/three''"
      "''https://git.example.com''" "''tok123''" "[]"] run
  obtain new where new: "[mergesUrl ''https://git.example.com'' 3 ''tok123'' 1,
            mergesUrl ''https://git.example.com'' 3 ''tok123'' 2] = [] @ new"
    and all: "\<forall>reqs2 (project2 :: Project). Id' project2 = Id' (mock_project 3 ''group/sub/three'') \<longrightarrow>
       GetMergeRequests (mock_env two_pages) project2 ''https://git.example.com'' ''tok123'' reqs2 =
         Some (Inr [mock_merge_request ''d'', mock_merge_request ''e''], reqs2 @ new)"
    by blast
  from all id have "GetMergeRequests (mock_env two_pages) (mock_project 3 ''renamed'')
       ''https://git.example.com'' ''tok123'' [''earlier''] =
     Some (Inr [mock_merge_request ''d'', mock_merge_request ''e''], [''earlier''] @ new)"
    by blast
  with new run show ?thesis by simp
qed

end
